theory Spec2Isabelle
  imports Complex_Main "HOL-Library.Word" "HOL-Library.Product_Lexorder"
begin

section \<open>Exceptions\<close>

text \<open>
  The four exception classes of \<^verbatim>\<open>app/exceptions/product_exceptions.py\<close>, each holding the
  argument its constructor is called with, and the library exceptions the modelled code can
  raise. \<open>IllTyped\<close> is not a Python exception: it marks the places where the dynamically typed
  source would go on with a value of a type the record types below cannot hold.
\<close>

datatype exn =
    ProductNotFoundException string
  | ProductAlreadyDeletedException string
  | ProductValidationException string
  | DatabaseException string
  | KeyError string
  | ValueError string
  | DuplicateKeyError string
  | ValidationError string
  | RuntimeError string
  | OverflowError string
  | IllTyped string

text \<open>\<^verbatim>\<open>str(e)\<close>: the message each constructor hands to \<^verbatim>\<open>Exception.__init__\<close>.\<close>

fun str_exn :: "exn \<Rightarrow> string" where
  "str_exn (ProductNotFoundException product_id) =
     ''Product with id '' @ [CHR 0x27] @ product_id @ [CHR 0x27] @ '' not found''"
| "str_exn (ProductAlreadyDeletedException product_id) =
     ''Product with id '' @ [CHR 0x27] @ product_id @ [CHR 0x27] @ '' has been deleted''"
| "str_exn (ProductValidationException message) = message"
| "str_exn (DatabaseException message) = ''Database error: '' @ message"
| "str_exn (KeyError k) = [CHR 0x27] @ k @ [CHR 0x27]"
| "str_exn (ValueError message) = message"
| "str_exn (DuplicateKeyError message) = message"
| "str_exn (ValidationError message) = message"
| "str_exn (RuntimeError message) = message"
| "str_exn (OverflowError message) = message"
| "str_exn (IllTyped message) = message"

section \<open>Text forms of numbers, UUIDs and timestamps\<close>

subsection \<open>Fixed-width digits\<close>

definition digit_char :: "nat \<Rightarrow> char" where
  "digit_char d = ''0123456789abcdef'' ! d"

definition char_digit :: "char \<Rightarrow> nat option" where
  "char_digit c = map_of
     [(CHR ''0'', 0), (CHR ''1'', 1), (CHR ''2'', 2), (CHR ''3'', 3), (CHR ''4'', 4),
      (CHR ''5'', 5), (CHR ''6'', 6), (CHR ''7'', 7), (CHR ''8'', 8), (CHR ''9'', 9),
      (CHR ''a'', 10), (CHR ''b'', 11), (CHR ''c'', 12), (CHR ''d'', 13), (CHR ''e'', 14),
      (CHR ''f'', 15), (CHR ''A'', 10), (CHR ''B'', 11), (CHR ''C'', 12), (CHR ''D'', 13),
      (CHR ''E'', 14), (CHR ''F'', 15)] c"

text \<open>\<^verbatim>\<open>'%0kd' % n\<close> and \<^verbatim>\<open>'%0kx' % n\<close> for \<open>n < b ^ k\<close>: the \<open>k\<close> digits of \<open>n\<close> in base \<open>b\<close>.\<close>

fun to_digits :: "nat \<Rightarrow> nat \<Rightarrow> nat \<Rightarrow> string" where
  "to_digits b 0 n = []"
| "to_digits b (Suc k) n = to_digits b k (n div b) @ [digit_char (n mod b)]"

fun of_digits_acc :: "nat \<Rightarrow> nat \<Rightarrow> string \<Rightarrow> nat option" where
  "of_digits_acc b acc [] = Some acc"
| "of_digits_acc b acc (c # cs) =
     (case char_digit c of
        None \<Rightarrow> None
      | Some d \<Rightarrow> if d < b then of_digits_acc b (acc * b + d) cs else None)"

definition of_digits :: "nat \<Rightarrow> string \<Rightarrow> nat option" where
  "of_digits b cs = (if cs = [] then None else of_digits_acc b 0 cs)"

subsection \<open>UUIDs\<close>

text \<open>
  A \<^verbatim>\<open>uuid.UUID\<close> holds a 128-bit integer. \<^verbatim>\<open>str(u)\<close> writes it as 32 lower-case
  hexadecimal digits in groups of 8-4-4-4-12. \<^verbatim>\<open>UUID(s)\<close> removes \<^verbatim>\<open>urn:\<close> and \<^verbatim>\<open>uuid:\<close>,
  strips braces, removes hyphens, and wants 32 hexadecimal digits. The digits are read here
  as plain hexadecimal digits of either case; the signs, underscores and blanks that Python's
  \<^verbatim>\<open>int(hex, 16)\<close> also lets through are rejected.
\<close>

type_synonym uuid = "128 word"

definition uuid_str :: "uuid \<Rightarrow> string" where
  "uuid_str u =
     (let h = to_digits 16 32 (unat u)
      in take 8 h @ ''-'' @ take 4 (drop 8 h) @ ''-'' @ take 4 (drop 12 h) @ ''-''
         @ take 4 (drop 16 h) @ ''-'' @ drop 20 h)"

text \<open>\<^verbatim>\<open>s.replace(old, '')\<close> for a non-empty \<open>old\<close>: every occurrence, left to right.\<close>

function str_remove :: "string \<Rightarrow> string \<Rightarrow> string" where
  "str_remove old s =
     (if s = [] then []
      else if old \<noteq> [] \<and> take (length old) s = old then str_remove old (drop (length old) s)
      else hd s # str_remove old (tl s))"
  by pat_completeness auto
termination
  by (relation "measure (\<lambda>(old, s). length s)") auto

declare str_remove.simps [simp del]

text \<open>\<^verbatim>\<open>s.strip(chars)\<close>.\<close>

definition str_strip :: "string \<Rightarrow> string \<Rightarrow> string" where
  "str_strip chars s =
     rev (dropWhile (\<lambda>c. c \<in> set chars) (rev (dropWhile (\<lambda>c. c \<in> set chars) s)))"

definition UUID :: "string \<Rightarrow> exn + uuid" where
  "UUID s =
     (let hex = str_remove ''uuid:'' (str_remove ''urn:'' s);
          hex = str_remove ''-'' (str_strip ''{}'' hex)
      in if length hex \<noteq> 32 then Inl (ValueError ''badly formed hexadecimal UUID string'')
         else case of_digits 16 hex of
                None \<Rightarrow> Inl (ValueError ''badly formed hexadecimal UUID string'')
              | Some n \<Rightarrow> Inr (word_of_nat n))"

subsection \<open>Timestamps\<close>

text \<open>
  A naive \<^verbatim>\<open>datetime.datetime\<close>, as \<^verbatim>\<open>datetime.utcnow()\<close> returns it. Python builds only
  values that satisfy \<open>valid_datetime\<close>, and orders them field by field.
\<close>

record datetime =
  year :: nat
  month :: nat
  day :: nat
  hour :: nat
  minute :: nat
  second :: nat
  microsecond :: nat

definition is_leap :: "nat \<Rightarrow> bool" where
  "is_leap y \<longleftrightarrow> y mod 4 = 0 \<and> (y mod 100 \<noteq> 0 \<or> y mod 400 = 0)"

definition days_in_month :: "nat \<Rightarrow> nat \<Rightarrow> nat" where
  "days_in_month y m =
     (if m = 2 then (if is_leap y then 29 else 28)
      else if m = 4 \<or> m = 6 \<or> m = 9 \<or> m = 11 then 30 else 31)"

definition valid_datetime :: "datetime \<Rightarrow> bool" where
  "valid_datetime d \<longleftrightarrow>
     1 \<le> year d \<and> year d \<le> 9999 \<and> 1 \<le> month d \<and> month d \<le> 12 \<and>
     1 \<le> day d \<and> day d \<le> days_in_month (year d) (month d) \<and>
     hour d < 24 \<and> minute d < 60 \<and> second d < 60 \<and> microsecond d < 1000000"

definition dt_tuple :: "datetime \<Rightarrow> nat \<times> nat \<times> nat \<times> nat \<times> nat \<times> nat \<times> nat" where
  "dt_tuple d = (year d, month d, day d, hour d, minute d, second d, microsecond d)"

definition dt_le :: "datetime \<Rightarrow> datetime \<Rightarrow> bool" where
  "dt_le a b \<longleftrightarrow> dt_tuple a \<le> dt_tuple b"

text \<open>\<^verbatim>\<open>d.isoformat()\<close>: \<^verbatim>\<open>YYYY-MM-DDTHH:MM:SS\<close>, then \<^verbatim>\<open>.ffffff\<close> unless the microseconds are 0.\<close>

definition isoformat :: "datetime \<Rightarrow> string" where
  "isoformat d =
     to_digits 10 4 (year d) @ ''-'' @ to_digits 10 2 (month d) @ ''-'' @ to_digits 10 2 (day d)
     @ ''T'' @ to_digits 10 2 (hour d) @ '':'' @ to_digits 10 2 (minute d) @ '':''
     @ to_digits 10 2 (second d)
     @ (if microsecond d \<noteq> 0 then ''.'' @ to_digits 10 6 (microsecond d) else [])"

definition dec_field :: "nat \<Rightarrow> nat \<Rightarrow> string \<Rightarrow> nat option" where
  "dec_field pos len s = of_digits 10 (take len (drop pos s))"

text \<open>
  The time part \<^verbatim>\<open>HH[:MM[:SS[.fff[fff]]]]\<close>: hour, minute, second, microsecond.
\<close>

definition parse_isoformat_time :: "string \<Rightarrow> (nat \<times> nat \<times> nat \<times> nat) option" where
  "parse_isoformat_time t =
     (let n = length t in
      if n \<noteq> 2 \<and> n \<noteq> 5 \<and> n \<noteq> 8 \<and> n \<noteq> 12 \<and> n \<noteq> 15 then None
      else if 5 \<le> n \<and> t ! 2 \<noteq> CHR '':'' then None
      else if 8 \<le> n \<and> t ! 5 \<noteq> CHR '':'' then None
      else if 12 \<le> n \<and> t ! 8 \<noteq> CHR ''.'' then None
      else
        case (dec_field 0 2 t,
              if 5 \<le> n then dec_field 3 2 t else Some 0,
              if 8 \<le> n then dec_field 6 2 t else Some 0,
              if n = 12 then map_option (\<lambda>f. f * 1000) (dec_field 9 3 t)
              else if n = 15 then dec_field 9 6 t else Some 0) of
          (Some h, Some mi, Some se, Some us) \<Rightarrow> Some (h, mi, se, us)
        | _ \<Rightarrow> None)"

text \<open>
  \<^verbatim>\<open>datetime.fromisoformat(s)\<close> on the strings \<^verbatim>\<open>isoformat\<close> writes for a naive timestamp:
  a date \<^verbatim>\<open>YYYY-MM-DD\<close>, then nothing or one separator character and a time part. A
  time zone offset, which a naive timestamp never has, is rejected.
\<close>

definition fromisoformat :: "string \<Rightarrow> exn + datetime" where
  "fromisoformat s =
     (let bad = Inl (ValueError (''Invalid isoformat string: '' @ [CHR 0x27] @ s @ [CHR 0x27])) in
      if length s < 10 \<or> length s = 11 \<or> s ! 4 \<noteq> CHR ''-'' \<or> s ! 7 \<noteq> CHR ''-'' then bad
      else
        case (dec_field 0 4 s, dec_field 5 2 s, dec_field 8 2 s,
              if length s = 10 then Some (0, 0, 0, 0) else parse_isoformat_time (drop 11 s)) of
          (Some y, Some m, Some d, Some (h, mi, se, us)) \<Rightarrow>
            (let dt = \<lparr>year = y, month = m, day = d, hour = h, minute = mi, second = se,
                       microsecond = us\<rparr>
             in if valid_datetime dt then Inr dt else bad)
        | _ \<Rightarrow> bad)"

section \<open>Documents and the process environment\<close>

text \<open>
  The values a document field holds: what \<^verbatim>\<open>to_dict\<close> writes (text, numbers, the null
  marker), the typed identifiers and timestamps \<^verbatim>\<open>from_dict\<close> also accepts, and the
  \<^verbatim>\<open>_id\<close> the store adds.
\<close>

datatype doc_value =
    VNone
  | VStr string
  | VInt int
  | VFloat real
  | VUuid uuid
  | VDatetime datetime
  | VObjectId nat

type_synonym document = "string \<rightharpoonup> doc_value"

text \<open>
  What the code reads from outside itself: the documents of the collection in their natural
  order with the counter for \<^verbatim>\<open>_id\<close>, the successive readings of \<^verbatim>\<open>datetime.utcnow()\<close>, the
  successive results of \<^verbatim>\<open>uuid4()\<close>, and the text pydantic gives a failed response
  validation (a parameter: that text is the library's).
\<close>

record world =
  documents :: "document list"
  next_oid :: nat
  clock :: "nat \<Rightarrow> datetime"
  clock_reads :: nat
  uuid_source :: "nat \<Rightarrow> uuid"
  uuid_draws :: nat
  validation_text :: "document \<Rightarrow> string"

definition utcnow :: "world \<Rightarrow> datetime \<times> world" where
  "utcnow w = (clock w (clock_reads w), w\<lparr>clock_reads := Suc (clock_reads w)\<rparr>)"

definition uuid4 :: "world \<Rightarrow> uuid \<times> world" where
  "uuid4 w = (uuid_source w (uuid_draws w), w\<lparr>uuid_draws := Suc (uuid_draws w)\<rparr>)"

definition mono_clock :: "world \<Rightarrow> bool" where
  "mono_clock w \<longleftrightarrow> (\<forall>i j. i \<le> j \<longrightarrow> dt_le (clock w i) (clock w j))"

section \<open>The domain model: \<^verbatim>\<open>app/models/product.py\<close>\<close>

text \<open>
  The nine attributes of \<^verbatim>\<open>Product\<close>. The price is a Python float that the code only
  stores, copies and hands on, so it is a real number here; \<open>id'\<close> is the attribute \<^verbatim>\<open>id\<close>.
\<close>

record product =
  id' :: uuid
  name :: string
  description :: "string option"
  category :: string
  price :: real
  stock :: int
  created_at :: datetime
  updated_at :: datetime
  deleted_at :: "datetime option"

text \<open>
  \<^verbatim>\<open>Product.__init__\<close>. A UUID and a datetime are always true in Python, so
  \<^verbatim>\<open>id or uuid4()\<close> draws a fresh UUID exactly when \<^verbatim>\<open>id\<close> is \<^verbatim>\<open>None\<close>, and each of
  \<^verbatim>\<open>created_at\<close> and \<^verbatim>\<open>updated_at\<close> reads the clock on its own when it is \<^verbatim>\<open>None\<close>.
\<close>

definition Product_init ::
  "string \<Rightarrow> string \<Rightarrow> real \<Rightarrow> int \<Rightarrow> string option \<Rightarrow> uuid option \<Rightarrow> datetime option \<Rightarrow>
   datetime option \<Rightarrow> datetime option \<Rightarrow> world \<Rightarrow> product \<times> world" where
  "Product_init n c pr st de ido cre upd del w =
     (let (i, w1) = (case ido of Some i \<Rightarrow> (i, w) | None \<Rightarrow> uuid4 w);
          (ca, w2) = (case cre of Some t \<Rightarrow> (t, w1) | None \<Rightarrow> utcnow w1);
          (ua, w3) = (case upd of Some t \<Rightarrow> (t, w2) | None \<Rightarrow> utcnow w2)
      in (\<lparr>id' = i, name = n, description = de, category = c, price = pr, stock = st,
           created_at = ca, updated_at = ua, deleted_at = del\<rparr>, w3))"

definition Product_to_dict :: "product \<Rightarrow> document" where
  "Product_to_dict p =
     [''id'' \<mapsto> VStr (uuid_str (id' p)),
      ''name'' \<mapsto> VStr (name p),
      ''description'' \<mapsto> (case description p of None \<Rightarrow> VNone | Some s \<Rightarrow> VStr s),
      ''category'' \<mapsto> VStr (category p),
      ''price'' \<mapsto> VFloat (price p),
      ''stock'' \<mapsto> VInt (stock p),
      ''createdAt'' \<mapsto> VStr (isoformat (created_at p)),
      ''updatedAt'' \<mapsto> VStr (isoformat (updated_at p)),
      ''deletedAt'' \<mapsto> (case deleted_at p of None \<Rightarrow> VNone | Some t \<Rightarrow> VStr (isoformat t))]"

text \<open>
  The arguments \<^verbatim>\<open>from_dict\<close> computes for the constructor, one function for each form in the
  source. \<^verbatim>\<open>data[k]\<close> raises \<^verbatim>\<open>KeyError\<close> on a missing key, \<^verbatim>\<open>data.get(k)\<close> gives
  \<^verbatim>\<open>None\<close>. A value of a type the record cannot hold gives \<open>IllTyped\<close>, where Python would
  store it as it is.
\<close>

definition arg_id :: "document \<Rightarrow> exn + uuid option" where
  "arg_id data =
     (case data ''id'' of
        None \<Rightarrow> Inl (KeyError ''id'')
      | Some (VStr s) \<Rightarrow> (case UUID s of Inl e \<Rightarrow> Inl e | Inr u \<Rightarrow> Inr (Some u))
      | Some (VUuid u) \<Rightarrow> Inr (Some u)
      | Some VNone \<Rightarrow> Inr None
      | Some _ \<Rightarrow> Inl (IllTyped ''id''))"

definition arg_str :: "string \<Rightarrow> document \<Rightarrow> exn + string" where
  "arg_str k data =
     (case data k of
        None \<Rightarrow> Inl (KeyError k)
      | Some (VStr s) \<Rightarrow> Inr s
      | Some _ \<Rightarrow> Inl (IllTyped k))"

definition arg_description :: "document \<Rightarrow> exn + string option" where
  "arg_description data =
     (case data ''description'' of
        None \<Rightarrow> Inr None
      | Some VNone \<Rightarrow> Inr None
      | Some (VStr s) \<Rightarrow> Inr (Some s)
      | Some _ \<Rightarrow> Inl (IllTyped ''description''))"

definition arg_price :: "document \<Rightarrow> exn + real" where
  "arg_price data =
     (case data ''price'' of
        None \<Rightarrow> Inl (KeyError ''price'')
      | Some (VFloat r) \<Rightarrow> Inr r
      | Some _ \<Rightarrow> Inl (IllTyped ''price''))"

definition arg_stock :: "document \<Rightarrow> exn + int" where
  "arg_stock data =
     (case data ''stock'' of
        None \<Rightarrow> Inl (KeyError ''stock'')
      | Some (VInt i) \<Rightarrow> Inr i
      | Some _ \<Rightarrow> Inl (IllTyped ''stock''))"

definition arg_timestamp :: "string \<Rightarrow> document \<Rightarrow> exn + datetime option" where
  "arg_timestamp k data =
     (case data k of
        None \<Rightarrow> Inl (KeyError k)
      | Some (VStr s) \<Rightarrow> (case fromisoformat s of Inl e \<Rightarrow> Inl e | Inr t \<Rightarrow> Inr (Some t))
      | Some (VDatetime t) \<Rightarrow> Inr (Some t)
      | Some VNone \<Rightarrow> Inr None
      | Some _ \<Rightarrow> Inl (IllTyped k))"

definition arg_deleted_at :: "document \<Rightarrow> exn + datetime option" where
  "arg_deleted_at data =
     (case data ''deletedAt'' of
        None \<Rightarrow> Inr None
      | Some VNone \<Rightarrow> Inr None
      | Some (VStr s) \<Rightarrow>
          (if s = [] then Inl (IllTyped ''deletedAt'')
           else case fromisoformat s of Inl e \<Rightarrow> Inl e | Inr t \<Rightarrow> Inr (Some t))
      | Some (VDatetime t) \<Rightarrow> Inr (Some t)
      | Some _ \<Rightarrow> Inl (IllTyped ''deletedAt''))"

text \<open>
  \<^verbatim>\<open>Product.from_dict\<close>: the keyword arguments are evaluated in the order written, the first
  failure is raised, and only then does the constructor run.
\<close>

definition Product_from_dict :: "document \<Rightarrow> world \<Rightarrow> (exn + product) \<times> world" where
  "Product_from_dict data w =
     (case arg_id data of Inl e \<Rightarrow> (Inl e, w) | Inr ido \<Rightarrow>
      case arg_str ''name'' data of Inl e \<Rightarrow> (Inl e, w) | Inr n \<Rightarrow>
      case arg_description data of Inl e \<Rightarrow> (Inl e, w) | Inr de \<Rightarrow>
      case arg_str ''category'' data of Inl e \<Rightarrow> (Inl e, w) | Inr c \<Rightarrow>
      case arg_price data of Inl e \<Rightarrow> (Inl e, w) | Inr pr \<Rightarrow>
      case arg_stock data of Inl e \<Rightarrow> (Inl e, w) | Inr st \<Rightarrow>
      case arg_timestamp ''createdAt'' data of Inl e \<Rightarrow> (Inl e, w) | Inr cre \<Rightarrow>
      case arg_timestamp ''updatedAt'' data of Inl e \<Rightarrow> (Inl e, w) | Inr upd \<Rightarrow>
      case arg_deleted_at data of Inl e \<Rightarrow> (Inl e, w) | Inr del \<Rightarrow>
        (let (p, w') = Product_init n c pr st de ido cre upd del w in (Inr p, w')))"

text \<open>\<^verbatim>\<open>Product.soft_delete\<close>: two assignments, each with its own reading of the clock.\<close>

definition Product_soft_delete :: "product \<Rightarrow> world \<Rightarrow> product \<times> world" where
  "Product_soft_delete p w =
     (let (t1, w1) = utcnow w;
          p1 = p\<lparr>deleted_at := Some t1\<rparr>;
          (t2, w2) = utcnow w1
      in (p1\<lparr>updated_at := t2\<rparr>, w2))"

definition Product_is_deleted :: "product \<Rightarrow> bool" where
  "Product_is_deleted p \<longleftrightarrow> deleted_at p \<noteq> None"

definition Product_update ::
  "string option \<Rightarrow> string option \<Rightarrow> string option \<Rightarrow> real option \<Rightarrow> int option \<Rightarrow>
   product \<Rightarrow> world \<Rightarrow> product \<times> world" where
  "Product_update n de c pr st p w =
     (let p1 = (case n of Some v \<Rightarrow> p\<lparr>name := v\<rparr> | None \<Rightarrow> p);
          p2 = (case de of Some v \<Rightarrow> p1\<lparr>description := Some v\<rparr> | None \<Rightarrow> p1);
          p3 = (case c of Some v \<Rightarrow> p2\<lparr>category := v\<rparr> | None \<Rightarrow> p2);
          p4 = (case pr of Some v \<Rightarrow> p3\<lparr>price := v\<rparr> | None \<Rightarrow> p3);
          p5 = (case st of Some v \<Rightarrow> p4\<lparr>stock := v\<rparr> | None \<Rightarrow> p4);
          (t, w1) = utcnow w
      in (p5\<lparr>updated_at := t\<rparr>, w1))"




text \<open>Serialising and deserialising again and again, for as long as it succeeds.\<close>

fun round_trips :: "nat \<Rightarrow> product \<Rightarrow> world \<Rightarrow> (exn + product) \<times> world" where
  "round_trips 0 p w = (Inr p, w)"
| "round_trips (Suc k) p w =
     (case Product_from_dict (Product_to_dict p) w of
        (Inl e, w') \<Rightarrow> (Inl e, w')
      | (Inr p', w') \<Rightarrow> round_trips k p' w')"

text \<open>The document with the identifier and the timestamps in their typed forms.\<close>

definition typed_dict :: "product \<Rightarrow> document" where
  "typed_dict p =
     (Product_to_dict p)
       (''id'' \<mapsto> VUuid (id' p),
        ''createdAt'' \<mapsto> VDatetime (created_at p),
        ''updatedAt'' \<mapsto> VDatetime (updated_at p),
        ''deletedAt'' \<mapsto> (case deleted_at p of None \<Rightarrow> VNone | Some t \<Rightarrow> VDatetime t))"

definition valid_product :: "product \<Rightarrow> bool" where
  "valid_product p \<longleftrightarrow>
     valid_datetime (created_at p) \<and> valid_datetime (updated_at p) \<and>
     (case deleted_at p of None \<Rightarrow> True | Some t \<Rightarrow> valid_datetime t)"

section \<open>Request and response schemas: \<^verbatim>\<open>app/schemas/product.py\<close>\<close>

record ProductCreate =
  pc_name :: string
  pc_description :: "string option"
  pc_category :: string
  pc_price :: real
  pc_stock :: int

text \<open>
  A field of an update request is either not in the request (\<open>Unset\<close>), or in it with a value
  or with null (\<open>Given\<close>). \<^verbatim>\<open>model_dump(exclude_unset=True)\<close> keeps the \<open>Given\<close> fields, and
  \<^verbatim>\<open>update_data.get(k)\<close> is \<^verbatim>\<open>None\<close> for a key that is not there.
\<close>

datatype 'a field = Unset | Given "'a option"

record ProductUpdate =
  pu_name :: "string field"
  pu_description :: "string field"
  pu_category :: "string field"
  pu_price :: "real field"
  pu_stock :: "int field"

definition update_data_get :: "'a field \<Rightarrow> 'a option" where
  "update_data_get f = (case f of Unset \<Rightarrow> None | Given v \<Rightarrow> v)"

record ProductResponse =
  r_id :: uuid
  r_name :: string
  r_description :: "string option"
  r_category :: string
  r_price :: real
  r_stock :: int
  r_createdAt :: datetime
  r_updatedAt :: datetime
  r_deletedAt :: "datetime option"

record ProductListResponse =
  products :: "ProductResponse list"
  total :: nat

text \<open>
  \<^verbatim>\<open>ProductResponse(**data)\<close>: pydantic checks each keyword argument against the field's
  type, parsing text into a UUID or a timestamp; \<open>None\<close> stands for a failed check. Modelled
  for the documents \<^verbatim>\<open>to_dict\<close> writes, the only ones the routes pass.
\<close>

definition resp_uuid :: "doc_value option \<Rightarrow> uuid option" where
  "resp_uuid v =
     (case v of
        Some (VStr s) \<Rightarrow> (case UUID s of Inl e \<Rightarrow> None | Inr u \<Rightarrow> Some u)
      | Some (VUuid u) \<Rightarrow> Some u
      | _ \<Rightarrow> None)"

definition resp_str :: "doc_value option \<Rightarrow> string option" where
  "resp_str v = (case v of Some (VStr s) \<Rightarrow> Some s | _ \<Rightarrow> None)"

definition resp_opt_str :: "doc_value option \<Rightarrow> string option option" where
  "resp_opt_str v =
     (case v of None \<Rightarrow> Some None | Some VNone \<Rightarrow> Some None | Some (VStr s) \<Rightarrow> Some (Some s)
      | _ \<Rightarrow> None)"

definition resp_float :: "doc_value option \<Rightarrow> real option" where
  "resp_float v =
     (case v of Some (VFloat r) \<Rightarrow> Some r | Some (VInt i) \<Rightarrow> Some (real_of_int i) | _ \<Rightarrow> None)"

definition resp_int :: "doc_value option \<Rightarrow> int option" where
  "resp_int v = (case v of Some (VInt i) \<Rightarrow> Some i | _ \<Rightarrow> None)"

definition resp_datetime :: "doc_value option \<Rightarrow> datetime option" where
  "resp_datetime v =
     (case v of
        Some (VStr s) \<Rightarrow> (case fromisoformat s of Inl e \<Rightarrow> None | Inr t \<Rightarrow> Some t)
      | Some (VDatetime t) \<Rightarrow> Some t
      | _ \<Rightarrow> None)"

definition resp_opt_datetime :: "doc_value option \<Rightarrow> datetime option option" where
  "resp_opt_datetime v =
     (case v of
        None \<Rightarrow> Some None
      | Some VNone \<Rightarrow> Some None
      | _ \<Rightarrow> map_option Some (resp_datetime v))"

definition ProductResponse_init :: "(document \<Rightarrow> string) \<Rightarrow> document \<Rightarrow> exn + ProductResponse" where
  "ProductResponse_init txt data =
     (case (resp_uuid (data ''id''), resp_str (data ''name''),
            resp_opt_str (data ''description''), resp_str (data ''category''),
            resp_float (data ''price''), resp_int (data ''stock''),
            resp_datetime (data ''createdAt''), resp_datetime (data ''updatedAt''),
            resp_opt_datetime (data ''deletedAt'')) of
        (Some i, Some n, Some de, Some c, Some pr, Some st, Some cre, Some upd, Some del) \<Rightarrow>
          Inr \<lparr>r_id = i, r_name = n, r_description = de, r_category = c, r_price = pr,
               r_stock = st, r_createdAt = cre, r_updatedAt = upd, r_deletedAt = del\<rparr>
      | _ \<Rightarrow> Inl (ValidationError (txt data)))"

section \<open>The collection\<close>

text \<open>
  The four driver calls the repository makes, on the list of documents. A query is a list of
  field conditions; a condition on null also matches a document without the field, as in
  MongoDB. \<^verbatim>\<open>$set\<close> overwrites the fields it names and keeps the others. The collection
  carries the unique index on \<^verbatim>\<open>id\<close> that \<^verbatim>\<open>connect_db\<close> creates before any handle is given
  out; the server's text for a duplicate key is cut to its first words. Failures of the
  connection itself are not modelled.

  The driver encodes a document before it sends it: an integer must fit 8 bytes, or the call
  raises \<^verbatim>\<open>OverflowError\<close> and nothing is written. The documents the repository hands to the
  driver are those of \<^verbatim>\<open>to_dict\<close>, so the check runs over its nine keys.
\<close>

definition int_fits :: "int \<Rightarrow> bool" where
  "int_fits i \<longleftrightarrow> - (2 ^ 63) \<le> i \<and> i < 2 ^ 63"

definition product_keys :: "string list" where
  "product_keys =
     [''id'', ''name'', ''description'', ''category'', ''price'', ''stock'', ''createdAt'',
      ''updatedAt'', ''deletedAt'']"

definition encodable :: "document \<Rightarrow> bool" where
  "encodable doc \<longleftrightarrow>
     list_all (\<lambda>k. case doc k of Some (VInt i) \<Rightarrow> int_fits i | _ \<Rightarrow> True) product_keys"

definition too_big :: exn where
  "too_big = OverflowError ''MongoDB can only handle up to 8-byte ints''"

type_synonym query = "(string \<times> doc_value) list"

definition matches_field :: "string \<Rightarrow> doc_value \<Rightarrow> document \<Rightarrow> bool" where
  "matches_field k v d \<longleftrightarrow> (if v = VNone then d k = None \<or> d k = Some VNone else d k = Some v)"

definition matches :: "query \<Rightarrow> document \<Rightarrow> bool" where
  "matches q d \<longleftrightarrow> list_all (\<lambda>(k, v). matches_field k v d) q"

definition find_one :: "query \<Rightarrow> world \<Rightarrow> document option" where
  "find_one q w = List.find (matches q) (documents w)"

definition find_docs :: "query \<Rightarrow> world \<Rightarrow> document list" where
  "find_docs q w = filter (matches q) (documents w)"

fun set_first :: "query \<Rightarrow> document \<Rightarrow> document list \<Rightarrow> document list" where
  "set_first q upd [] = []"
| "set_first q upd (d # ds) = (if matches q d then (d ++ upd) # ds else d # set_first q upd ds)"

definition update_one :: "query \<Rightarrow> document \<Rightarrow> world \<Rightarrow> exn + world" where
  "update_one q upd w =
     (if \<not> encodable upd then Inl too_big
      else Inr (w\<lparr>documents := set_first q upd (documents w)\<rparr>))"

definition insert_one :: "document \<Rightarrow> world \<Rightarrow> exn + world" where
  "insert_one doc w =
     (if \<not> encodable doc then Inl too_big
      else if doc ''id'' \<in> set (map (\<lambda>d. d ''id'') (documents w))
      then Inl (DuplicateKeyError ''E11000 duplicate key error'')
      else Inr (w\<lparr>documents := documents w @ [doc(''_id'' \<mapsto> VObjectId (next_oid w))],
                  next_oid := Suc (next_oid w)\<rparr>))"

section \<open>The repository: \<^verbatim>\<open>app/repositories/product_repository.py\<close>\<close>

definition ProductRepository_create :: "product \<Rightarrow> world \<Rightarrow> (exn + product) \<times> world" where
  "ProductRepository_create p w =
     (case insert_one (Product_to_dict p) w of
        Inl e \<Rightarrow> (Inl (DatabaseException (''Failed to create product: '' @ str_exn e)), w)
      | Inr w' \<Rightarrow> (Inr p, w'))"

text \<open>
  \<^verbatim>\<open>if document:\<close> holds for every document \<^verbatim>\<open>find_one\<close> returns here: it has the field
  \<^verbatim>\<open>id\<close>, so it is not the empty dictionary.
\<close>

definition ProductRepository_find_by_id :: "uuid \<Rightarrow> world \<Rightarrow> (exn + product option) \<times> world" where
  "ProductRepository_find_by_id product_id w =
     (case find_one [(''id'', VStr (uuid_str product_id))] w of
        None \<Rightarrow> (Inr None, w)
      | Some doc \<Rightarrow>
          (case Product_from_dict (doc(''_id'' := None)) w of
             (Inl e, w') \<Rightarrow> (Inl (DatabaseException (''Failed to find product: '' @ str_exn e)), w')
           | (Inr p, w') \<Rightarrow> (Inr (Some p), w')))"

fun from_dicts :: "document list \<Rightarrow> world \<Rightarrow> (exn + product list) \<times> world" where
  "from_dicts [] w = (Inr [], w)"
| "from_dicts (doc # docs) w =
     (case Product_from_dict (doc(''_id'' := None)) w of
        (Inl e, w') \<Rightarrow> (Inl e, w')
      | (Inr p, w') \<Rightarrow>
          (case from_dicts docs w' of
             (Inl e, w'') \<Rightarrow> (Inl e, w'')
           | (Inr ps, w'') \<Rightarrow> (Inr (p # ps), w'')))"

definition ProductRepository_find_all :: "bool \<Rightarrow> world \<Rightarrow> (exn + product list) \<times> world" where
  "ProductRepository_find_all include_deleted w =
     (let q = (if include_deleted then [] else [(''deletedAt'', VNone)]) in
      case from_dicts (find_docs q w) w of
        (Inl e, w') \<Rightarrow> (Inl (DatabaseException (''Failed to find products: '' @ str_exn e)), w')
      | (Inr ps, w') \<Rightarrow> (Inr ps, w'))"

definition ProductRepository_update :: "product \<Rightarrow> world \<Rightarrow> (exn + product) \<times> world" where
  "ProductRepository_update p w =
     (case update_one [(''id'', VStr (uuid_str (id' p)))] (Product_to_dict p) w of
        Inl e \<Rightarrow> (Inl (DatabaseException (''Failed to update product: '' @ str_exn e)), w)
      | Inr w' \<Rightarrow> (Inr p, w'))"

section \<open>The service: \<^verbatim>\<open>app/services/product_service.py\<close>\<close>

definition ProductService_create_product :: "ProductCreate \<Rightarrow> world \<Rightarrow> (exn + product) \<times> world" where
  "ProductService_create_product product_data w =
     (let (p, w1) = Product_init (pc_name product_data) (pc_category product_data)
                      (pc_price product_data) (pc_stock product_data)
                      (pc_description product_data) None None None None w
      in ProductRepository_create p w1)"

definition ProductService_get_product_by_id :: "uuid \<Rightarrow> world \<Rightarrow> (exn + product) \<times> world" where
  "ProductService_get_product_by_id product_id w =
     (case ProductRepository_find_by_id product_id w of
        (Inl e, w') \<Rightarrow> (Inl e, w')
      | (Inr None, w') \<Rightarrow> (Inl (ProductNotFoundException (uuid_str product_id)), w')
      | (Inr (Some p), w') \<Rightarrow>
          if Product_is_deleted p
          then (Inl (ProductAlreadyDeletedException (uuid_str product_id)), w')
          else (Inr p, w'))"

definition ProductService_get_all_products :: "world \<Rightarrow> (exn + product list) \<times> world" where
  "ProductService_get_all_products w = ProductRepository_find_all False w"

definition ProductService_update_product ::
  "uuid \<Rightarrow> ProductUpdate \<Rightarrow> world \<Rightarrow> (exn + product) \<times> world" where
  "ProductService_update_product product_id product_data w =
     (case ProductRepository_find_by_id product_id w of
        (Inl e, w') \<Rightarrow> (Inl e, w')
      | (Inr None, w') \<Rightarrow> (Inl (ProductNotFoundException (uuid_str product_id)), w')
      | (Inr (Some p), w') \<Rightarrow>
          if Product_is_deleted p
          then (Inl (ProductAlreadyDeletedException (uuid_str product_id)), w')
          else
            (let (p', w'') = Product_update
                   (update_data_get (pu_name product_data))
                   (update_data_get (pu_description product_data))
                   (update_data_get (pu_category product_data))
                   (update_data_get (pu_price product_data))
                   (update_data_get (pu_stock product_data)) p w'
             in ProductRepository_update p' w''))"

definition ProductService_delete_product :: "uuid \<Rightarrow> world \<Rightarrow> (exn + product) \<times> world" where
  "ProductService_delete_product product_id w =
     (case ProductRepository_find_by_id product_id w of
        (Inl e, w') \<Rightarrow> (Inl e, w')
      | (Inr None, w') \<Rightarrow> (Inl (ProductNotFoundException (uuid_str product_id)), w')
      | (Inr (Some p), w') \<Rightarrow>
          if Product_is_deleted p
          then (Inl (ProductAlreadyDeletedException (uuid_str product_id)), w')
          else (let (p', w'') = Product_soft_delete p w' in ProductRepository_update p' w''))"

text \<open>The update request in which every field given as null is left out instead.\<close>

definition omit_null :: "'a field \<Rightarrow> 'a field" where
  "omit_null f = (case f of Given None \<Rightarrow> Unset | _ \<Rightarrow> f)"

definition null_as_omitted :: "ProductUpdate \<Rightarrow> ProductUpdate" where
  "null_as_omitted product_data =
     \<lparr>pu_name = omit_null (pu_name product_data),
      pu_description = omit_null (pu_description product_data),
      pu_category = omit_null (pu_category product_data),
      pu_price = omit_null (pu_price product_data),
      pu_stock = omit_null (pu_stock product_data)\<rparr>"

definition only_price :: "real \<Rightarrow> ProductUpdate" where
  "only_price x =
     \<lparr>pu_name = Unset, pu_description = Unset, pu_category = Unset, pu_price = Given (Some x),
      pu_stock = Unset\<rparr>"

text \<open>
  Runs of service calls: each call says whether it succeeded, and a run counts the products
  it created and the products it deleted.
\<close>

datatype service_op =
    CreateProduct ProductCreate
  | GetProduct uuid
  | GetAllProducts
  | UpdateProduct uuid ProductUpdate
  | DeleteProduct uuid

definition succeeded :: "(exn + 'a) \<times> world \<Rightarrow> bool \<times> world" where
  "succeeded r = (case r of (Inl e, w') \<Rightarrow> (False, w') | (Inr x, w') \<Rightarrow> (True, w'))"

fun service_step :: "service_op \<Rightarrow> world \<Rightarrow> bool \<times> world" where
  "service_step (CreateProduct product_data) w = succeeded (ProductService_create_product product_data w)"
| "service_step (GetProduct product_id) w = succeeded (ProductService_get_product_by_id product_id w)"
| "service_step GetAllProducts w = succeeded (ProductService_get_all_products w)"
| "service_step (UpdateProduct product_id product_data) w =
     succeeded (ProductService_update_product product_id product_data w)"
| "service_step (DeleteProduct product_id) w = succeeded (ProductService_delete_product product_id w)"

fun is_create :: "service_op \<Rightarrow> bool" where
  "is_create (CreateProduct product_data) = True"
| "is_create x = False"

fun is_delete :: "service_op \<Rightarrow> bool" where
  "is_delete (DeleteProduct product_id) = True"
| "is_delete x = False"

fun run_service :: "service_op list \<Rightarrow> world \<Rightarrow> nat \<times> nat \<times> world" where
  "run_service [] w = (0, 0, w)"
| "run_service (x # xs) w =
     (let (ok, w') = service_step x w;
          (n, k, w'') = run_service xs w'
      in ((if ok \<and> is_create x then Suc n else n), (if ok \<and> is_delete x then Suc k else k), w''))"

definition doc_active :: "document \<Rightarrow> bool" where
  "doc_active d \<longleftrightarrow> d ''deletedAt'' = None \<or> d ''deletedAt'' = Some VNone"

text \<open>Which of the two lifecycle errors a result is.\<close>

definition is_not_found :: "exn + 'a \<Rightarrow> bool" where
  "is_not_found r = (case r of Inl (ProductNotFoundException i) \<Rightarrow> True | _ \<Rightarrow> False)"

definition is_already_deleted :: "exn + 'a \<Rightarrow> bool" where
  "is_already_deleted r = (case r of Inl (ProductAlreadyDeletedException i) \<Rightarrow> True | _ \<Rightarrow> False)"

text \<open>
  The collections the service builds: every document is the serialisation of a record with
  valid timestamps together with the store's \<^verbatim>\<open>_id\<close>, and the clock gives valid timestamps.
\<close>

definition stored_doc :: "document \<Rightarrow> bool" where
  "stored_doc d \<longleftrightarrow> (\<exists>p v. valid_product p \<and> d = (Product_to_dict p)(''_id'' \<mapsto> v))"

definition well_stored :: "world \<Rightarrow> bool" where
  "well_stored w \<longleftrightarrow> (\<forall>i. valid_datetime (clock w i)) \<and> list_all stored_doc (documents w)"

definition active_count :: "world \<Rightarrow> nat" where
  "active_count w = length (filter doc_active (documents w))"

section \<open>The router: \<^verbatim>\<open>app/routers/products.py\<close>\<close>

text \<open>
  A route answers with a status and a body, or raises \<^verbatim>\<open>HTTPException\<close> with a status and
  a detail. Each route is its \<^verbatim>\<open>try\<close> body followed by its own chain of \<^verbatim>\<open>except\<close> clauses,
  in the order of the source. The service is the one \<^verbatim>\<open>get_product_service\<close> builds over
  the collection.
\<close>

datatype 'a http = Response nat 'a | HTTPException nat string

definition unexpected :: "exn \<Rightarrow> 'a http" where
  "unexpected e = HTTPException 500 (''An unexpected error occurred: '' @ str_exn e)"

fun create_product_except :: "exn \<Rightarrow> 'a http" where
  "create_product_except (ProductValidationException m) =
     HTTPException 400 (str_exn (ProductValidationException m))"
| "create_product_except (DatabaseException m) = HTTPException 500 (str_exn (DatabaseException m))"
| "create_product_except e = unexpected e"

fun get_all_products_except :: "exn \<Rightarrow> 'a http" where
  "get_all_products_except (DatabaseException m) = HTTPException 500 (str_exn (DatabaseException m))"
| "get_all_products_except e = unexpected e"

fun get_product_except :: "exn \<Rightarrow> 'a http" where
  "get_product_except (ProductNotFoundException i) =
     HTTPException 404 (str_exn (ProductNotFoundException i))"
| "get_product_except (ProductAlreadyDeletedException i) =
     HTTPException 410 (str_exn (ProductAlreadyDeletedException i))"
| "get_product_except (DatabaseException m) = HTTPException 500 (str_exn (DatabaseException m))"
| "get_product_except e = unexpected e"

fun update_product_except :: "exn \<Rightarrow> 'a http" where
  "update_product_except (ProductNotFoundException i) =
     HTTPException 404 (str_exn (ProductNotFoundException i))"
| "update_product_except (ProductAlreadyDeletedException i) =
     HTTPException 410 (str_exn (ProductAlreadyDeletedException i))"
| "update_product_except (ProductValidationException m) =
     HTTPException 400 (str_exn (ProductValidationException m))"
| "update_product_except (DatabaseException m) = HTTPException 500 (str_exn (DatabaseException m))"
| "update_product_except e = unexpected e"

fun delete_product_except :: "exn \<Rightarrow> 'a http" where
  "delete_product_except (ProductNotFoundException i) =
     HTTPException 404 (str_exn (ProductNotFoundException i))"
| "delete_product_except (ProductAlreadyDeletedException i) =
     HTTPException 410 (str_exn (ProductAlreadyDeletedException i))"
| "delete_product_except (DatabaseException m) = HTTPException 500 (str_exn (DatabaseException m))"
| "delete_product_except e = unexpected e"

text \<open>\<^verbatim>\<open>ProductResponse(**product.to_dict())\<close> after a service call that returns a product.\<close>

definition respond :: "(exn + product) \<times> world \<Rightarrow> (exn + ProductResponse) \<times> world" where
  "respond r =
     (case r of
        (Inl e, w') \<Rightarrow> (Inl e, w')
      | (Inr p, w') \<Rightarrow> (ProductResponse_init (validation_text w') (Product_to_dict p), w'))"

fun responses :: "(document \<Rightarrow> string) \<Rightarrow> product list \<Rightarrow> exn + ProductResponse list" where
  "responses txt [] = Inr []"
| "responses txt (p # ps) =
     (case ProductResponse_init txt (Product_to_dict p) of
        Inl e \<Rightarrow> Inl e
      | Inr r \<Rightarrow> (case responses txt ps of Inl e \<Rightarrow> Inl e | Inr rs \<Rightarrow> Inr (r # rs)))"

definition create_product_try :: "ProductCreate \<Rightarrow> world \<Rightarrow> (exn + ProductResponse) \<times> world" where
  "create_product_try product_data w = respond (ProductService_create_product product_data w)"

definition get_all_products_try :: "world \<Rightarrow> (exn + ProductListResponse) \<times> world" where
  "get_all_products_try w =
     (case ProductService_get_all_products w of
        (Inl e, w') \<Rightarrow> (Inl e, w')
      | (Inr ps, w') \<Rightarrow>
          (case responses (validation_text w') ps of
             Inl e \<Rightarrow> (Inl e, w')
           | Inr product_responses \<Rightarrow>
               (Inr \<lparr>products = product_responses, total = length ps\<rparr>, w')))"

definition get_product_try :: "uuid \<Rightarrow> world \<Rightarrow> (exn + ProductResponse) \<times> world" where
  "get_product_try product_id w = respond (ProductService_get_product_by_id product_id w)"

definition update_product_try ::
  "uuid \<Rightarrow> ProductUpdate \<Rightarrow> world \<Rightarrow> (exn + ProductResponse) \<times> world" where
  "update_product_try product_id product_data w =
     respond (ProductService_update_product product_id product_data w)"

definition delete_product_try :: "uuid \<Rightarrow> world \<Rightarrow> (exn + ProductResponse) \<times> world" where
  "delete_product_try product_id w = respond (ProductService_delete_product product_id w)"

definition route :: "nat \<Rightarrow> (exn \<Rightarrow> 'a http) \<Rightarrow> (exn + 'a) \<times> world \<Rightarrow> 'a http \<times> world" where
  "route ok handler r =
     (case r of (Inl e, w') \<Rightarrow> (handler e, w') | (Inr body, w') \<Rightarrow> (Response ok body, w'))"

definition create_product :: "ProductCreate \<Rightarrow> world \<Rightarrow> ProductResponse http \<times> world" where
  "create_product product_data w = route 201 create_product_except (create_product_try product_data w)"

definition get_all_products :: "world \<Rightarrow> ProductListResponse http \<times> world" where
  "get_all_products w = route 200 get_all_products_except (get_all_products_try w)"

definition get_product :: "uuid \<Rightarrow> world \<Rightarrow> ProductResponse http \<times> world" where
  "get_product product_id w = route 200 get_product_except (get_product_try product_id w)"

definition update_product :: "uuid \<Rightarrow> ProductUpdate \<Rightarrow> world \<Rightarrow> ProductResponse http \<times> world" where
  "update_product product_id product_data w =
     route 200 update_product_except (update_product_try product_id product_data w)"

definition delete_product :: "uuid \<Rightarrow> world \<Rightarrow> ProductResponse http \<times> world" where
  "delete_product product_id w = route 200 delete_product_except (delete_product_try product_id w)"

text \<open>
  The error table as the specification words it: the status of each error kind and the detail
  of the response.
\<close>

fun spec_status :: "exn \<Rightarrow> nat" where
  "spec_status (ProductNotFoundException i) = 404"
| "spec_status (ProductAlreadyDeletedException i) = 410"
| "spec_status (ProductValidationException m) = 400"
| "spec_status (DatabaseException m) = 500"
| "spec_status e = 500"

fun spec_detail :: "exn \<Rightarrow> string" where
  "spec_detail (ProductNotFoundException i) =
     ''Product with id '' @ [CHR 0x27] @ i @ [CHR 0x27] @ '' not found''"
| "spec_detail (ProductAlreadyDeletedException i) =
     ''Product with id '' @ [CHR 0x27] @ i @ [CHR 0x27] @ '' has been deleted''"
| "spec_detail (ProductValidationException m) = m"
| "spec_detail (DatabaseException m) = ''Database error: '' @ m"
| "spec_detail e = ''An unexpected error occurred: '' @ str_exn e"

section \<open>The connection manager: \<^verbatim>\<open>app/database.py\<close>\<close>

record settings =
  mongodb_url :: string
  mongodb_database :: string
  mongodb_collection :: string

record motor_client =
  client_url :: string
  closed :: bool

record collection_handle =
  database_name :: string
  collection_name :: string

text \<open>The two class attributes of \<^verbatim>\<open>Database\<close>, both \<^verbatim>\<open>None\<close> when the class is loaded.\<close>

record database =
  client :: "motor_client option"
  collection :: "collection_handle option"

definition Database_loaded :: database where
  "Database_loaded = \<lparr>client = None, collection = None\<rparr>"

text \<open>
  \<^verbatim>\<open>connect_db\<close> opens a client, selects the collection, and asks for three indexes, returned
  here as a list of field and uniqueness.
\<close>

definition connect_db :: "settings \<Rightarrow> database \<Rightarrow> database \<times> (string \<times> bool) list" where
  "connect_db s db =
     (\<lparr>client = Some \<lparr>client_url = mongodb_url s, closed = False\<rparr>,
       collection = Some \<lparr>database_name = mongodb_database s,
                          collection_name = mongodb_collection s\<rparr>\<rparr>,
      [(''id'', True), (''category'', False), (''deletedAt'', False)])"

definition close_db :: "database \<Rightarrow> database" where
  "close_db db =
     (case client db of
        None \<Rightarrow> db
      | Some c \<Rightarrow> db\<lparr>client := Some (c\<lparr>closed := True\<rparr>)\<rparr>)"

definition get_collection :: "database \<Rightarrow> exn + collection_handle" where
  "get_collection db =
     (case collection db of
        None \<Rightarrow> Inl (RuntimeError ''Database not connected. Call connect_db() first.'')
      | Some h \<Rightarrow> Inr h)"

datatype db_call = Connect settings | Close

fun db_step :: "db_call \<Rightarrow> database \<Rightarrow> database" where
  "db_step (Connect s) db = fst (connect_db s db)"
| "db_step Close db = close_db db"

fun db_run :: "db_call list \<Rightarrow> database \<Rightarrow> database" where
  "db_run [] db = db"
| "db_run (x # xs) db = db_run xs (db_step x db)"

fun last_connect :: "db_call list \<Rightarrow> settings option \<Rightarrow> settings option" where
  "last_connect [] r = r"
| "last_connect (Connect s # xs) r = last_connect xs (Some s)"
| "last_connect (Close # xs) r = last_connect xs r"

definition default_settings :: settings where
  "default_settings =
     \<lparr>mongodb_url = ''mongodb://localhost:27017'', mongodb_database = ''products_db'',
      mongodb_collection = ''products''\<rparr>"


section \<open>Concrete inputs\<close>

definition example_clock :: "nat \<Rightarrow> datetime" where
  "example_clock i =
     \<lparr>year = 2026, month = 2, day = 6, hour = 10, minute = 30, second = 0,
      microsecond = min i 999999\<rparr>"

definition example_uuids :: "nat \<Rightarrow> uuid" where
  "example_uuids i = 0x123e4567e89b12d3a456426614174000 + word_of_nat i"

definition example_world :: world where
  "example_world =
     \<lparr>documents = [], next_oid = 0, clock = example_clock, clock_reads = 0,
      uuid_source = example_uuids, uuid_draws = 0, validation_text = (\<lambda>d. ''validation error'')\<rparr>"

definition example_product :: product where
  "example_product =
     \<lparr>id' = 0x123e4567e89b12d3a456426614174000, name = ''Wireless Mouse'', description = None,
      category = ''Electronics'', price = 2999 / 100, stock = 150,
      created_at = example_clock 0, updated_at = example_clock 7,
      deleted_at = Some (example_clock 9)\<rparr>"

definition example_active :: product where
  "example_active =
     \<lparr>id' = 0x123e4567e89b12d3a456426614174001, name = ''Keyboard'',
      description = Some ''Mechanical'', category = ''Electronics'', price = 80, stock = 12,
      created_at = example_clock 1, updated_at = example_clock 2, deleted_at = None\<rparr>"

definition example_store :: world where
  "example_store =
     example_world
       \<lparr>documents := [(Product_to_dict example_active)(''_id'' \<mapsto> VObjectId 0),
                      (Product_to_dict example_product)(''_id'' \<mapsto> VObjectId 1)],
        next_oid := 2, clock_reads := 10\<rparr>"

definition example_create :: ProductCreate where
  "example_create =
     \<lparr>pc_name = ''Mouse'', pc_description = None, pc_category = ''Electronics'', pc_price = 1,
      pc_stock = 1\<rparr>"

definition example_run :: "service_op list" where
  "example_run =
     [CreateProduct example_create, CreateProduct example_create,
      DeleteProduct 0x123e4567e89b12d3a456426614174000]"

section \<open>Lemmas on the text forms\<close>

lemma all_lt16: "\<forall>d<16. char_digit (digit_char d) = Some d"
  unfolding char_digit_def digit_char_def
  by (simp add: All_less_Suc eval_nat_numeral)

lemma char_digit_digit_char: "d < 16 \<Longrightarrow> char_digit (digit_char d) = Some d"
  using all_lt16 by blast

lemma to_digits_unfold:
  "to_digits b k n = (if k = 0 then [] else to_digits b (k - 1) (n div b) @ [digit_char (n mod b)])"
  by (cases k) simp_all

lemma length_to_digits [simp]: "length (to_digits b k n) = k"
  by (induction k arbitrary: n) simp_all

lemma of_digits_acc_append:
  "of_digits_acc b acc (xs @ ys) =
     (case of_digits_acc b acc xs of None \<Rightarrow> None | Some a \<Rightarrow> of_digits_acc b a ys)"
  by (induction xs arbitrary: acc) (auto split: option.splits)

lemma of_digits_acc_to_digits:
  assumes "b \<le> 16" "0 < b"
  shows "of_digits_acc b acc (to_digits b k n) = Some (acc * b ^ k + n mod b ^ k)"
proof (induction k arbitrary: n acc)
  case 0
  show ?case by simp
next
  case (Suc k)
  have lt: "n mod b < b" using assms by simp
  then have "n mod b < 16" using assms by linarith
  then have d: "char_digit (digit_char (n mod b)) = Some (n mod b)"
    by (rule char_digit_digit_char)
  have m: "n mod (b * b ^ k) = b * (n div b mod b ^ k) + n mod b"
    by (simp add: mod_mult2_eq)
  have "of_digits_acc b acc (to_digits b (Suc k) n) =
        of_digits_acc b (acc * b ^ k + n div b mod b ^ k) [digit_char (n mod b)]"
    by (simp only: to_digits.simps of_digits_acc_append Suc.IH option.case)
  also have "\<dots> = Some ((acc * b ^ k + n div b mod b ^ k) * b + n mod b)"
    by (simp only: of_digits_acc.simps d option.case lt if_True)
  also have "(acc * b ^ k + n div b mod b ^ k) * b + n mod b = acc * b ^ Suc k + n mod b ^ Suc k"
    by (simp add: m distrib_left distrib_right mult.left_commute mult.commute)
  finally show ?case .
qed

lemma of_digits_to_digits:
  assumes "b \<le> 16" "0 < b" "0 < k" "n < b ^ k"
  shows "of_digits b (to_digits b k n) = Some n"
proof -
  have "to_digits b k n \<noteq> []"
    using assms(3) by (metis length_to_digits length_0_conv less_numeral_extra(3))
  then show ?thesis
    using of_digits_acc_to_digits [OF assms(1,2), of 0 k n] assms(4)
    by (simp add: of_digits_def)
qed

lemma set_to_digits:
  assumes "b \<le> 16" "0 < b"
  shows "set (to_digits b k n) \<subseteq> set ''0123456789abcdef''"
proof -
  define H where "H = set ''0123456789abcdef''"
  have "set (to_digits b k n) \<subseteq> H"
  proof (induction k arbitrary: n)
    case 0
    show ?case by simp
  next
    case (Suc k)
    have "n mod b < 16" using assms by (meson less_le_trans mod_less_divisor)
    then have "digit_char (n mod b) \<in> H"
      unfolding digit_char_def H_def by (intro nth_mem) simp
    then show ?case using Suc by simp
  qed
  then show ?thesis by (simp only: H_def)
qed

lemma str_remove_Nil [simp]: "str_remove old [] = []"
  by (simp add: str_remove.simps)

lemma str_remove_absent:
  "old \<noteq> [] \<Longrightarrow> hd old \<notin> set s \<Longrightarrow> str_remove old s = s"
proof (induction s)
  case Nil
  show ?case by simp
next
  case (Cons c s)
  have "take (length old) (c # s) \<noteq> old"
  proof
    assume "take (length old) (c # s) = old"
    then have "hd old = c" using Cons.prems(1) by (cases old) auto
    then show False using Cons.prems(2) by simp
  qed
  then show ?case using Cons by (simp add: str_remove.simps [of old "c # s"])
qed

lemma str_remove_single: "str_remove [c] s = filter (\<lambda>x. x \<noteq> c) s"
proof (induction s)
  case Nil
  show ?case by simp
next
  case (Cons a s)
  show ?case using Cons by (simp add: str_remove.simps [of "[c]" "a # s"])
qed

lemma dropWhile_none: "\<forall>c\<in>set xs. \<not> P c \<Longrightarrow> dropWhile P xs = xs"
  by (cases xs) auto

lemma str_strip_absent: "\<forall>c\<in>set s. c \<notin> set chars \<Longrightarrow> str_strip chars s = s"
  by (simp add: str_strip_def dropWhile_none)

lemma regroup:
  "length h = 32 \<Longrightarrow>
   take 8 h @ take 4 (drop 8 h) @ take 4 (drop 12 h) @ take 4 (drop 16 h) @ drop 20 h = h"
proof -
  have a: "drop 12 h = drop 4 (drop 8 h)" "drop 16 h = drop 4 (drop 12 h)"
          "drop 20 h = drop 4 (drop 16 h)"
    by simp_all
  show ?thesis
    by (simp only: a append_take_drop_id)
qed

lemma UUID_uuid_str: "UUID (uuid_str u) = Inr u"
proof -
  define h where "h = to_digits 16 32 (unat u)"
  define s where "s = uuid_str u"
  have len: "length h = 32" by (simp add: h_def)
  have hex: "set h \<subseteq> set ''0123456789abcdef''"
    unfolding h_def by (rule set_to_digits) simp_all
  have s: "s = take 8 h @ ''-'' @ take 4 (drop 8 h) @ ''-'' @ take 4 (drop 12 h) @ ''-''
         @ take 4 (drop 16 h) @ ''-'' @ drop 20 h"
    by (simp add: s_def uuid_str_def h_def Let_def)
  have sub: "set s \<subseteq> insert CHR ''-'' (set h)"
    unfolding s by (auto dest: in_set_takeD in_set_dropD)
  have nou: "CHR ''u'' \<notin> set s" and nob: "\<forall>c\<in>set s. c \<notin> set ''{}''"
    using sub hex by auto
  have r1: "str_remove ''urn:'' s = s" using nou by (intro str_remove_absent) simp_all
  have r2: "str_remove ''uuid:'' s = s" using nou by (intro str_remove_absent) simp_all
  have r3: "str_strip ''{}'' s = s" using nob by (rule str_strip_absent)
  have nodash: "CHR ''-'' \<notin> set h" using hex by auto
  have f: "\<And>i j. filter (\<lambda>x. x \<noteq> CHR ''-'') (take i (drop j h)) = take i (drop j h)"
    using nodash by (auto simp: filter_id_conv dest!: in_set_takeD in_set_dropD)
  have f1: "filter (\<lambda>x. x \<noteq> CHR ''-'') (take 8 h) = take 8 h"
    and f2: "filter (\<lambda>x. x \<noteq> CHR ''-'') (drop 20 h) = drop 20 h"
    using nodash by (auto simp: filter_id_conv dest!: in_set_takeD in_set_dropD)
  have r4: "str_remove ''-'' s = h"
    unfolding str_remove_single s
    by (simp add: f f1 f2 regroup [OF len])
  have n: "of_digits 16 h = Some (unat u)"
    unfolding h_def
  proof (rule of_digits_to_digits)
    have "unat u < 2 ^ 128" using unsigned_less [of u] by simp
    then show "unat u < 16 ^ 32" by simp
  qed simp_all
  show ?thesis
    unfolding s_def [symmetric] UUID_def
    by (simp add: r1 r2 r3 r4 len n Let_def)
qed

lemma dec2: "n < 100 \<Longrightarrow> of_digits 10 (to_digits 10 2 n) = Some n"
  by (rule of_digits_to_digits) simp_all
lemma dec4: "n < 10000 \<Longrightarrow> of_digits 10 (to_digits 10 4 n) = Some n"
  by (rule of_digits_to_digits) simp_all
lemma dec6: "n < 1000000 \<Longrightarrow> of_digits 10 (to_digits 10 6 n) = Some n"
  by (rule of_digits_to_digits) simp_all

lemma days_in_month_le: "days_in_month y m \<le> 31"
  by (simp add: days_in_month_def)

lemma parse_time_seconds:
  assumes "h < 100" "mi < 100" "se < 100"
  shows "parse_isoformat_time (to_digits 10 2 h @ CHR '':'' # to_digits 10 2 mi @ CHR '':'' # to_digits 10 2 se)
         = Some (h, mi, se, 0)"
  using assms by (simp add: parse_isoformat_time_def dec_field_def nth_append dec2)

lemma parse_time_micros:
  assumes "h < 100" "mi < 100" "se < 100" "us < 1000000"
  shows "parse_isoformat_time (to_digits 10 2 h @ CHR '':'' # to_digits 10 2 mi @ CHR '':'' #
            to_digits 10 2 se @ CHR ''.'' # to_digits 10 6 us)
         = Some (h, mi, se, us)"
  using assms by (simp add: parse_isoformat_time_def dec_field_def nth_append dec2 dec6)

lemma fromisoformat_isoformat:
  assumes "valid_datetime d"
  shows "fromisoformat (isoformat d) = Inr d"
proof -
  have r: "year d < 10000" "month d < 100" "day d < 100" "hour d < 100" "minute d < 100"
    "second d < 100" "microsecond d < 1000000"
    using assms days_in_month_le [of "year d" "month d"] by (auto simp: valid_datetime_def)
  have eq: "\<lparr>year = year d, month = month d, day = day d, hour = hour d, minute = minute d,
             second = second d, microsecond = microsecond d\<rparr> = d"
    by simp
  show ?thesis
  proof (cases "microsecond d = 0")
    case True
    have eq0: "\<lparr>year = year d, month = month d, day = day d, hour = hour d, minute = minute d,
             second = second d, microsecond = 0\<rparr> = d"
      using True by simp
    show ?thesis
      using r True assms
      by (simp add: fromisoformat_def isoformat_def dec_field_def nth_append dec2 dec4
          parse_time_seconds eq0 Let_def)
  next
    case False
    show ?thesis
      using r False assms
      by (simp add: fromisoformat_def isoformat_def dec_field_def nth_append dec2 dec4
          parse_time_micros eq Let_def)
  qed
qed


section \<open>Serialisation\<close>

lemma from_dict_to_dict:
  assumes "valid_product p"
  shows "Product_from_dict (Product_to_dict p) w = (Inr p, w)"
proof -
  have c: "fromisoformat (isoformat (created_at p)) = Inr (created_at p)"
    and u: "fromisoformat (isoformat (updated_at p)) = Inr (updated_at p)"
    using assms by (simp_all add: valid_product_def fromisoformat_isoformat)
  have ne: "\<And>t. isoformat t \<noteq> []" by (simp add: isoformat_def to_digits_unfold)
  have a1: "arg_id (Product_to_dict p) = Inr (Some (id' p))"
    by (simp add: arg_id_def Product_to_dict_def UUID_uuid_str)
  have a2: "arg_str ''name'' (Product_to_dict p) = Inr (name p)"
    by (simp add: arg_str_def Product_to_dict_def)
  have a3: "arg_description (Product_to_dict p) = Inr (description p)"
    by (simp add: arg_description_def Product_to_dict_def split: option.splits)
  have a4: "arg_str ''category'' (Product_to_dict p) = Inr (category p)"
    by (simp add: arg_str_def Product_to_dict_def)
  have a5: "arg_price (Product_to_dict p) = Inr (price p)"
    by (simp add: arg_price_def Product_to_dict_def)
  have a6: "arg_stock (Product_to_dict p) = Inr (stock p)"
    by (simp add: arg_stock_def Product_to_dict_def)
  have a7: "arg_timestamp ''createdAt'' (Product_to_dict p) = Inr (Some (created_at p))"
    by (simp add: arg_timestamp_def Product_to_dict_def c)
  have a8: "arg_timestamp ''updatedAt'' (Product_to_dict p) = Inr (Some (updated_at p))"
    by (simp add: arg_timestamp_def Product_to_dict_def u)
  have a9: "arg_deleted_at (Product_to_dict p) = Inr (deleted_at p)"
  proof (cases "deleted_at p")
    case None
    then show ?thesis by (simp add: arg_deleted_at_def Product_to_dict_def)
  next
    case (Some t)
    then have "fromisoformat (isoformat t) = Inr t"
      using assms by (simp add: valid_product_def fromisoformat_isoformat)
    then show ?thesis using Some by (simp add: arg_deleted_at_def Product_to_dict_def ne)
  qed
  show ?thesis
    by (simp add: Product_from_dict_def a1 a2 a3 a4 a5 a6 a7 a8 a9 Product_init_def)
qed

lemma from_dict_typed_dict:
  "Product_from_dict (typed_dict p) w = (Inr p, w)"
proof -
  have a1: "arg_id (typed_dict p) = Inr (Some (id' p))"
    by (simp add: arg_id_def typed_dict_def)
  have a2: "arg_str ''name'' (typed_dict p) = Inr (name p)"
    by (simp add: arg_str_def typed_dict_def Product_to_dict_def)
  have a3: "arg_description (typed_dict p) = Inr (description p)"
    by (simp add: arg_description_def typed_dict_def Product_to_dict_def split: option.splits)
  have a4: "arg_str ''category'' (typed_dict p) = Inr (category p)"
    by (simp add: arg_str_def typed_dict_def Product_to_dict_def)
  have a5: "arg_price (typed_dict p) = Inr (price p)"
    by (simp add: arg_price_def typed_dict_def Product_to_dict_def)
  have a6: "arg_stock (typed_dict p) = Inr (stock p)"
    by (simp add: arg_stock_def typed_dict_def Product_to_dict_def)
  have a7: "arg_timestamp ''createdAt'' (typed_dict p) = Inr (Some (created_at p))"
    by (simp add: arg_timestamp_def typed_dict_def)
  have a8: "arg_timestamp ''updatedAt'' (typed_dict p) = Inr (Some (updated_at p))"
    by (simp add: arg_timestamp_def typed_dict_def)
  have a9: "arg_deleted_at (typed_dict p) = Inr (deleted_at p)"
    by (simp add: arg_deleted_at_def typed_dict_def split: option.splits)
  show ?thesis
    by (simp add: Product_from_dict_def a1 a2 a3 a4 a5 a6 a7 a8 a9 Product_init_def)
qed

lemma round_trips_id:
  "valid_product p \<Longrightarrow> round_trips k p w = (Inr p, w)"
  by (induction k) (simp_all add: from_dict_to_dict)

text \<open>
  C2. For every product record, with the description and the deletion time present or absent,
  deserialising the document that \<^verbatim>\<open>to_dict\<close> writes gives back the record, equal in all
  nine fields, and leaves the clock and the UUID source untouched; the same holds for the
  document that carries the identifier and the timestamps in typed form; and any number of
  serialise/deserialise round trips returns the record it started from. The hypothesis is the
  invariant of Python's \<^verbatim>\<open>datetime\<close> values.
\<close>

theorem round_trip_serialisation:
  assumes "valid_product p"
  shows "Product_from_dict (Product_to_dict p) w = (Inr p, w) \<and>
         Product_from_dict (typed_dict p) w = (Inr p, w) \<and>
         round_trips k p w = (Inr p, w)"
  using assms by (simp add: from_dict_to_dict from_dict_typed_dict round_trips_id)

lemma valid_example_clock: "valid_datetime (example_clock i)"
  by (simp add: valid_datetime_def example_clock_def days_in_month_def is_leap_def)

lemma valid_example_product: "valid_product example_product"
  by (simp add: valid_product_def example_product_def valid_example_clock)

theorem round_trip_serialisation_witness:
  "valid_product example_product \<and>
   Product_to_dict example_product ''deletedAt'' = Some (VStr ''2026-02-06T10:30:00.000009'') \<and>
   Product_from_dict (Product_to_dict example_product) example_world
     = (Inr example_product, example_world) \<and>
   Product_from_dict (typed_dict example_product) example_world
     = (Inr example_product, example_world) \<and>
   round_trips 3 example_product example_world = (Inr example_product, example_world)"
proof -
  have d: "Product_to_dict example_product ''deletedAt'' = Some (VStr ''2026-02-06T10:30:00.000009'')"
    by (simp add: Product_to_dict_def example_product_def example_clock_def isoformat_def
        to_digits_unfold digit_char_def)
  show ?thesis
    using round_trip_serialisation [OF valid_example_product, of example_world 3]
      valid_example_product d
    by simp
qed

section \<open>Timestamps of the domain model\<close>

lemma mono_example_clock: "mono_clock example_world"
  by (auto simp: mono_clock_def example_world_def example_clock_def dt_le_def dt_tuple_def min_def)

lemma soft_delete_eq:
  "Product_soft_delete p w =
     (p\<lparr>deleted_at := Some (clock w (clock_reads w)),
        updated_at := clock w (Suc (clock_reads w))\<rparr>,
      w\<lparr>clock_reads := Suc (Suc (clock_reads w))\<rparr>)"
  by (simp add: Product_soft_delete_def utcnow_def)

text \<open>
  C5, as the code has it. \<^verbatim>\<open>soft_delete\<close> reads the clock twice: \<open>deleted_at\<close> is the first
  reading and \<open>updated_at\<close> the one after it, and nothing else changes. Under a monotone clock
  \<open>updated_at\<close> is not before \<open>deleted_at\<close>; the two are the same instant when the clock has not
  moved between the two readings.
\<close>

theorem soft_delete_two_readings:
  "Product_soft_delete p w =
     (p\<lparr>deleted_at := Some (clock w (clock_reads w)),
        updated_at := clock w (Suc (clock_reads w))\<rparr>,
      w\<lparr>clock_reads := Suc (Suc (clock_reads w))\<rparr>) \<and>
   (mono_clock w \<longrightarrow> dt_le (clock w (clock_reads w)) (clock w (Suc (clock_reads w)))) \<and>
   (clock w (Suc (clock_reads w)) = clock w (clock_reads w) \<longrightarrow>
      deleted_at (fst (Product_soft_delete p w)) = Some (updated_at (fst (Product_soft_delete p w))))"
  by (simp add: soft_delete_eq mono_clock_def)

theorem soft_delete_two_readings_witness:
  "mono_clock example_world \<and>
   fst (Product_soft_delete example_product example_world) =
     example_product\<lparr>deleted_at := Some (example_clock 0), updated_at := example_clock 1\<rparr> \<and>
   dt_le (example_clock 0) (example_clock 1)"
  using soft_delete_two_readings [of example_product example_world] mono_example_clock
  by (simp add: example_world_def)

text \<open>
  C5, as the claim states it, fails: with a clock that moves by a microsecond between the two
  readings, \<open>deleted_at\<close> and \<open>updated_at\<close> differ after \<^verbatim>\<open>soft_delete\<close>.
\<close>

theorem soft_delete_same_instant_counterexample:
  "fst (Product_soft_delete example_product example_world) =
     example_product\<lparr>deleted_at := Some (example_clock 0), updated_at := example_clock 1\<rparr> \<and>
   example_clock 0 \<noteq> example_clock 1"
  by (simp add: soft_delete_eq example_world_def example_clock_def)

lemma update_eq:
  "Product_update n de c pr st p w =
    (p\<lparr>name := (case n of Some v \<Rightarrow> v | None \<Rightarrow> name p),
       description := (case de of Some v \<Rightarrow> Some v | None \<Rightarrow> description p),
       category := (case c of Some v \<Rightarrow> v | None \<Rightarrow> category p),
       price := (case pr of Some v \<Rightarrow> v | None \<Rightarrow> price p),
       stock := (case st of Some v \<Rightarrow> v | None \<Rightarrow> stock p),
       updated_at := clock w (clock_reads w)\<rparr>,
     w\<lparr>clock_reads := Suc (clock_reads w)\<rparr>)"
  by (simp add: Product_update_def utcnow_def split: option.splits)







section \<open>The connection manager\<close>

lemma last_connect_Some:
  "last_connect xs (Some r) = (case last_connect xs None of None \<Rightarrow> Some r | Some s \<Rightarrow> Some s)"
proof (induction xs arbitrary: r)
  case Nil
  show ?case by simp
next
  case (Cons y ys)
  show ?case
  proof (cases y)
    case (Connect s)
    show ?thesis
      unfolding Connect last_connect.simps Cons.IH [of s] by (simp split: option.splits)
  next
    case Close
    show ?thesis unfolding Close last_connect.simps by (rule Cons.IH)
  qed
qed

lemma get_collection_run:
  "get_collection (db_run calls db) =
     (case last_connect calls None of
        None \<Rightarrow> get_collection db
      | Some s \<Rightarrow> Inr \<lparr>database_name = mongodb_database s, collection_name = mongodb_collection s\<rparr>)"
proof (induction calls arbitrary: db)
  case Nil
  show ?case by simp
next
  case (Cons x xs)
  show ?case
  proof (cases x)
    case (Connect s)
    have g: "get_collection (fst (connect_db s db)) =
        Inr \<lparr>database_name = mongodb_database s, collection_name = mongodb_collection s\<rparr>"
      by (simp add: connect_db_def get_collection_def)
    show ?thesis
      unfolding Connect by (simp add: Cons.IH last_connect_Some g split: option.splits)
  next
    case Close
    have g: "get_collection (close_db db) = get_collection db"
      by (simp add: close_db_def get_collection_def split: option.splits)
    show ?thesis
      unfolding Close by (simp add: Cons.IH g split: option.splits)
  qed
qed

text \<open>
  C9, as the code has it. After any sequence of Connect and Close calls on the freshly loaded
  class, \<^verbatim>\<open>get_collection\<close> returns the handle of the latest Connect if there was one, also
  when Close was called after it, and fails with the not-connected error exactly when Connect
  was never called: \<^verbatim>\<open>close_db\<close> closes the client and keeps both attributes.
\<close>

theorem get_collection_after_calls:
  "get_collection (db_run calls Database_loaded) =
     (case last_connect calls None of
        None \<Rightarrow> Inl (RuntimeError ''Database not connected. Call connect_db() first.'')
      | Some s \<Rightarrow> Inr \<lparr>database_name = mongodb_database s, collection_name = mongodb_collection s\<rparr>)"
proof -
  have "get_collection Database_loaded =
      Inl (RuntimeError ''Database not connected. Call connect_db() first.'')"
    by (simp add: get_collection_def Database_loaded_def)
  then show ?thesis
    by (simp add: get_collection_run split: option.splits)
qed

text \<open>
  C9, as the claim states it, fails: after Connect and then Close, \<^verbatim>\<open>get_collection\<close> still
  returns the collection handle.
\<close>

theorem get_collection_after_close_counterexample:
  "get_collection (db_run [Connect default_settings, Close] Database_loaded) =
     Inr \<lparr>database_name = ''products_db'', collection_name = ''products''\<rparr>"
  by (simp add: connect_db_def close_db_def get_collection_def Database_loaded_def
      default_settings_def)


section \<open>The collection and the repository\<close>

lemma matches_id [simp]: "matches [(''id'', VStr s)] d \<longleftrightarrow> d ''id'' = Some (VStr s)"
  by (simp add: matches_def matches_field_def)

lemma matches_active [simp]: "matches [(''deletedAt'', VNone)] d \<longleftrightarrow> doc_active d"
  by (simp add: matches_def matches_field_def doc_active_def)

lemma set_first_none: "\<forall>d\<in>set ds. \<not> matches q d \<Longrightarrow> set_first q upd ds = ds"
  by (induction ds) simp_all

lemma set_first_split:
  "\<forall>x\<in>set ds1. \<not> matches q x \<Longrightarrow> matches q d \<Longrightarrow>
   set_first q upd (ds1 @ d # ds2) = ds1 @ (d ++ upd) # ds2"
  by (induction ds1) simp_all

lemma dom_to_dict:
  "dom (Product_to_dict p) = {''id'', ''name'', ''description'', ''category'', ''price'', ''stock'',
     ''createdAt'', ''updatedAt'', ''deletedAt''}"
  by (auto simp: Product_to_dict_def split: if_splits)

lemma uuid_str_active: "uuid_str (id' example_active) = ''123e4567-e89b-12d3-a456-426614174001''"
  by (simp add: uuid_str_def example_active_def to_digits_unfold digit_char_def)

lemma uuid_str_product: "uuid_str (id' example_product) = ''123e4567-e89b-12d3-a456-426614174000''"
  by (simp add: uuid_str_def example_product_def to_digits_unfold digit_char_def)

lemma Product_init_frame:
  assumes "Product_init n c pr st de ido cre upd del w = (p, w')"
  shows "documents w' = documents w \<and> next_oid w' = next_oid w \<and> clock w' = clock w \<and>
         uuid_source w' = uuid_source w \<and> validation_text w' = validation_text w \<and>
         clock_reads w \<le> clock_reads w' \<and>
         (ido \<noteq> None \<longrightarrow> ido = Some (id' p)) \<and> deleted_at p = del"
  using assms
  by (auto simp: Product_init_def uuid4_def utcnow_def split: option.splits)

lemma from_dict_cases:
  assumes "Product_from_dict data w = (r, w')"
  obtains (err) e where "r = Inl e" "w' = w"
  | (ok) p ido n de c pr st cre upd del where "r = Inr p" "arg_id data = Inr ido"
      "arg_deleted_at data = Inr del" "Product_init n c pr st de ido cre upd del w = (p, w')"
  using assms unfolding Product_from_dict_def
  by (auto split: sum.splits prod.splits simp: Let_def)

lemma from_dict_frame:
  assumes "Product_from_dict data w = (r, w')"
  shows "documents w' = documents w \<and> next_oid w' = next_oid w \<and> clock w' = clock w \<and>
         uuid_source w' = uuid_source w \<and> validation_text w' = validation_text w \<and>
         clock_reads w \<le> clock_reads w'"
  using assms
proof (cases rule: from_dict_cases)
  case (err e)
  then show ?thesis by simp
next
  case (ok p ido n de c pr st cre upd del)
  then show ?thesis using Product_init_frame [OF ok(4)] by simp
qed

lemma arg_id_str: "data ''id'' = Some (VStr (uuid_str i)) \<Longrightarrow> arg_id data = Inr (Some i)"
  by (simp add: arg_id_def UUID_uuid_str)

lemma arg_deleted_at_None: "arg_deleted_at data = Inr None \<Longrightarrow> doc_active data"
  by (auto simp: arg_deleted_at_def doc_active_def split: option.splits doc_value.splits if_splits sum.splits)

lemma arg_deleted_at_active: "doc_active data \<Longrightarrow> arg_deleted_at data = Inr None"
  by (auto simp: arg_deleted_at_def doc_active_def)

lemma from_dict_ok:
  assumes "Product_from_dict data w = (Inr p, w')"
  shows "(data ''id'' = Some (VStr (uuid_str i)) \<longrightarrow> id' p = i) \<and>
         (deleted_at p = None \<longleftrightarrow> doc_active data)"
  using assms
proof (cases rule: from_dict_cases)
  case (err e)
  then show ?thesis by simp
next
  case (ok p0 ido n de c pr st cre upd del)
  have p: "p0 = p" using ok(1) by simp
  have d: "deleted_at p = del" using Product_init_frame [OF ok(4)] p by simp
  have i: "ido \<noteq> None \<longrightarrow> ido = Some (id' p)" using Product_init_frame [OF ok(4)] p by simp
  have 1: "data ''id'' = Some (VStr (uuid_str i)) \<longrightarrow> id' p = i"
    using arg_id_str [of data i] ok(2) i by auto
  have 2: "deleted_at p = None \<longleftrightarrow> doc_active data"
    using d ok(3) arg_deleted_at_None [of data] arg_deleted_at_active [of data] by auto
  show ?thesis using 1 2 by simp
qed

lemma find_Some_D:
  "List.find P xs = Some x \<Longrightarrow>
   \<exists>ds1 ds2. xs = ds1 @ x # ds2 \<and> P x \<and> (\<forall>y\<in>set ds1. \<not> P y)"
proof (induction xs)
  case Nil
  then show ?case by simp
next
  case (Cons a xs)
  show ?case
  proof (cases "P a")
    case True
    then have "a = x" using Cons.prems by simp
    then show ?thesis using True by (intro exI [of _ "[]"] exI [of _ xs]) simp
  next
    case False
    then obtain ds1 ds2 where "xs = ds1 @ x # ds2 \<and> P x \<and> (\<forall>y\<in>set ds1. \<not> P y)"
      using Cons by auto
    then show ?thesis using False by (intro exI [of _ "a # ds1"] exI [of _ ds2]) simp
  qed
qed

text \<open>What a successful lookup says about the collection.\<close>

lemma find_by_id_Some:
  assumes "ProductRepository_find_by_id i w = (Inr (Some p), w1)"
  obtains ds1 d ds2 where "documents w = ds1 @ d # ds2" "d ''id'' = Some (VStr (uuid_str i))"
    "\<forall>y\<in>set ds1. y ''id'' \<noteq> Some (VStr (uuid_str i))"
    "Product_from_dict (d(''_id'' := None)) w = (Inr p, w1)"
    "id' p = i" "deleted_at p = None \<longleftrightarrow> doc_active d" "documents w1 = documents w"
proof -
  obtain d where f: "List.find (matches [(''id'', VStr (uuid_str i))]) (documents w) = Some d"
    and r: "Product_from_dict (d(''_id'' := None)) w = (Inr p, w1)"
    using assms
    by (auto simp: ProductRepository_find_by_id_def find_one_def split: option.splits sum.splits prod.splits)
  obtain ds1 ds2 where s: "documents w = ds1 @ d # ds2" "d ''id'' = Some (VStr (uuid_str i))"
    "\<forall>y\<in>set ds1. y ''id'' \<noteq> Some (VStr (uuid_str i))"
    using find_Some_D [OF f] by auto
  have i: "id' p = i" and a: "deleted_at p = None \<longleftrightarrow> doc_active d"
    using from_dict_ok [OF r, of i] s(2) by (simp_all add: doc_active_def)
  have f: "documents w1 = documents w" using from_dict_frame [OF r] by simp
  show ?thesis by (rule that [OF s(1) s(2) s(3) r i a f])
qed

lemma find_by_id_frame:
  assumes "ProductRepository_find_by_id i w = (r, w1)"
  shows "documents w1 = documents w \<and> next_oid w1 = next_oid w \<and> clock w1 = clock w \<and>
         validation_text w1 = validation_text w \<and> clock_reads w \<le> clock_reads w1"
proof (cases "find_one [(''id'', VStr (uuid_str i))] w")
  case None
  then show ?thesis using assms by (simp add: ProductRepository_find_by_id_def)
next
  case (Some d)
  obtain r0 w0 where f: "Product_from_dict (d(''_id'' := None)) w = (r0, w0)"
    by (cases "Product_from_dict (d(''_id'' := None)) w")
  have "w1 = w0" using assms Some f
    by (auto simp: ProductRepository_find_by_id_def split: sum.splits)
  then show ?thesis using from_dict_frame [OF f] by simp
qed

lemma find_by_id_error:
  "ProductRepository_find_by_id i w = (Inl e, w1) \<Longrightarrow> \<exists>m. e = DatabaseException m"
  by (auto simp: ProductRepository_find_by_id_def split: option.splits sum.splits prod.splits)

section \<open>Partial updates\<close>

lemma update_product_active:
  assumes "ProductRepository_find_by_id i w = (Inr (Some p), w1)" "deleted_at p = None"
  shows "ProductService_update_product i d w =
     ProductRepository_update
       (p\<lparr>name := (case update_data_get (pu_name d) of Some v \<Rightarrow> v | None \<Rightarrow> name p),
          description := (case update_data_get (pu_description d) of Some v \<Rightarrow> Some v
                          | None \<Rightarrow> description p),
          category := (case update_data_get (pu_category d) of Some v \<Rightarrow> v | None \<Rightarrow> category p),
          price := (case update_data_get (pu_price d) of Some v \<Rightarrow> v | None \<Rightarrow> price p),
          stock := (case update_data_get (pu_stock d) of Some v \<Rightarrow> v | None \<Rightarrow> stock p),
          updated_at := clock w1 (clock_reads w1)\<rparr>)
       (w1\<lparr>clock_reads := Suc (clock_reads w1)\<rparr>)"
  using assms
  by (simp add: ProductService_update_product_def Product_is_deleted_def update_eq)

lemma encodable_to_dict [simp]: "encodable (Product_to_dict p) \<longleftrightarrow> int_fits (stock p)"
  by (simp add: encodable_def product_keys_def Product_to_dict_def split: option.splits)

lemma repository_update_eq:
  "ProductRepository_update p w =
     (if int_fits (stock p)
      then (Inr p, w\<lparr>documents := set_first [(''id'', VStr (uuid_str (id' p)))]
                                       (Product_to_dict p) (documents w)\<rparr>)
      else (Inl (DatabaseException
                   ''Failed to update product: MongoDB can only handle up to 8-byte ints''), w))"
  by (simp add: ProductRepository_update_def update_one_def too_big_def)

text \<open>
  C4. For every active product that the repository finds under the id, the service's update
  with a request that supplies only \<open>price\<close> returns the record with \<open>price\<close> replaced and
  \<open>updated_at\<close> set to the clock's reading, every other field as it was, and writes that
  record to the stored document; and for any request, every field the request does not
  supply keeps its value, as do \<open>id\<close>, \<open>created_at\<close> and \<open>deleted_at\<close>. The stock that is
  found is a stored integer, which fits 8 bytes; were it larger, the driver could not write
  the record back, and the update would raise \<^verbatim>\<open>DatabaseException\<close> and write nothing.
\<close>

theorem price_only_update:
  assumes "ProductRepository_find_by_id i w = (Inr (Some p), w1)" and "deleted_at p = None"
  shows "(int_fits (stock p) \<longrightarrow>
          ProductService_update_product i (only_price x) w =
           (Inr (p\<lparr>price := x, updated_at := clock w1 (clock_reads w1)\<rparr>),
            w1\<lparr>clock_reads := Suc (clock_reads w1),
               documents := set_first [(''id'', VStr (uuid_str i))]
                 (Product_to_dict (p\<lparr>price := x, updated_at := clock w1 (clock_reads w1)\<rparr>))
                 (documents w1)\<rparr>)) \<and>
         (\<not> int_fits (stock p) \<longrightarrow>
          ProductService_update_product i (only_price x) w =
           (Inl (DatabaseException
                   ''Failed to update product: MongoDB can only handle up to 8-byte ints''),
            w1\<lparr>clock_reads := Suc (clock_reads w1)\<rparr>)) \<and>
         (\<forall>d p' w'. ProductService_update_product i d w = (Inr p', w') \<longrightarrow>
            (pu_name d = Unset \<longrightarrow> name p' = name p) \<and>
            (pu_description d = Unset \<longrightarrow> description p' = description p) \<and>
            (pu_category d = Unset \<longrightarrow> category p' = category p) \<and>
            (pu_price d = Unset \<longrightarrow> price p' = price p) \<and>
            (pu_stock d = Unset \<longrightarrow> stock p' = stock p) \<and>
            id' p' = id' p \<and> created_at p' = created_at p \<and> deleted_at p' = deleted_at p \<and>
            updated_at p' = clock w1 (clock_reads w1))"
proof -
  have i: "id' p = i" using assms(1) by (rule find_by_id_Some)
  show ?thesis
    unfolding update_product_active [OF assms] repository_update_eq
    by (auto simp: only_price_def update_data_get_def i split: if_splits)
qed

lemma get_omit_null [simp]: "update_data_get (omit_null f) = update_data_get f"
  by (simp add: update_data_get_def omit_null_def split: field.splits option.splits)

text \<open>
  C10. For every update request, the service's update does the same as for the request in
  which every field given as null is omitted instead; so a description given as null is left
  as it was, and no update request turns a description that is set into an absent one.
\<close>

theorem null_is_omitted:
  "ProductService_update_product i d w = ProductService_update_product i (null_as_omitted d) w \<and>
   (ProductRepository_find_by_id i w = (Inr (Some p), w1) \<and>
    ProductService_update_product i d w = (Inr p', w') \<longrightarrow>
      (pu_description d = Given None \<longrightarrow> description p' = description p) \<and>
      (description p \<noteq> None \<longrightarrow> description p' \<noteq> None))"
proof -
  have g: "update_data_get (pu_name (null_as_omitted d)) = update_data_get (pu_name d)"
    "update_data_get (pu_description (null_as_omitted d)) = update_data_get (pu_description d)"
    "update_data_get (pu_category (null_as_omitted d)) = update_data_get (pu_category d)"
    "update_data_get (pu_price (null_as_omitted d)) = update_data_get (pu_price d)"
    "update_data_get (pu_stock (null_as_omitted d)) = update_data_get (pu_stock d)"
    by (simp_all add: null_as_omitted_def)
  have 1: "ProductService_update_product i d w = ProductService_update_product i (null_as_omitted d) w"
    unfolding ProductService_update_product_def g by (rule refl)
  have 2: "(pu_description d = Given None \<longrightarrow> description p' = description p) \<and>
      (description p \<noteq> None \<longrightarrow> description p' \<noteq> None)"
    if f: "ProductRepository_find_by_id i w = (Inr (Some p), w1)"
      and u: "ProductService_update_product i d w = (Inr p', w')"
  proof -
    have a: "deleted_at p = None"
      using f u by (auto simp: ProductService_update_product_def Product_is_deleted_def split: if_splits)
    show ?thesis
      using u unfolding update_product_active [OF f a] repository_update_eq
      by (auto simp: update_data_get_def split: option.splits if_splits)
  qed
  show ?thesis using 1 2 by blast
qed

lemma valid_example_active: "valid_product example_active"
  by (simp add: valid_product_def example_active_def valid_example_clock)
lemma to_dict_no_oid [simp]: "Product_to_dict p ''_id'' = None"
  by (simp add: Product_to_dict_def)

lemma to_dict_id [simp]: "Product_to_dict p ''id'' = Some (VStr (uuid_str (id' p)))"
  by (simp add: Product_to_dict_def)

lemma to_dict_drop_oid [simp]: "(Product_to_dict p)(''_id'' := None) = Product_to_dict p"
  by (rule fun_upd_idem) simp

lemma from_dict_stored:
  "valid_product p \<Longrightarrow>
   Product_from_dict (((Product_to_dict p)(''_id'' \<mapsto> v))(''_id'' := None)) w = (Inr p, w)"
  by (simp add: from_dict_to_dict)

lemma example_ids_differ:
  "uuid_str (id' example_product) \<noteq> uuid_str (id' example_active)"
  by (simp add: uuid_str_active uuid_str_product)

lemma find_example_active:
  "ProductRepository_find_by_id (id' example_active) example_store
     = (Inr (Some example_active), example_store)"
  by (simp add: ProductRepository_find_by_id_def find_one_def example_store_def
      from_dict_to_dict valid_example_active)

lemma find_example_product:
  "ProductRepository_find_by_id (id' example_product) example_store
     = (Inr (Some example_product), example_store)"
  using example_ids_differ
  by (simp add: ProductRepository_find_by_id_def find_one_def example_store_def
      from_dict_to_dict valid_example_product)

theorem price_only_update_witness:
  "ProductRepository_find_by_id (id' example_active) example_store
     = (Inr (Some example_active), example_store) \<and>
   deleted_at example_active = None \<and> int_fits (stock example_active) \<and>
   fst (ProductService_update_product (id' example_active) (only_price 5) example_store)
     = Inr \<lparr>id' = 0x123e4567e89b12d3a456426614174001, name = ''Keyboard'',
        description = Some ''Mechanical'', category = ''Electronics'', price = 5, stock = 12,
        created_at = example_clock 1, updated_at = example_clock 10, deleted_at = None\<rparr>"
proof -
  have a: "deleted_at example_active = None" by (simp add: example_active_def)
  have b: "int_fits (stock example_active)" by (simp add: int_fits_def example_active_def)
  have c: "clock example_store (clock_reads example_store) = example_clock 10"
    by (simp add: example_store_def example_world_def)
  have "fst (ProductService_update_product (id' example_active) (only_price 5) example_store)
     = Inr (example_active\<lparr>price := 5, updated_at := example_clock 10\<rparr>)"
    using price_only_update [OF find_example_active a, THEN conjunct1, THEN mp, OF b, of 5]
    by (simp add: c)
  then show ?thesis
    using find_example_active a b by (simp add: example_active_def)
qed

section \<open>Error responses of the router\<close>

lemma respond_error:
  assumes "respond r = (Inl e, w')"
  shows "r = (Inl e, w') \<or> (\<exists>m. e = ValidationError m)"
  using assms
  by (cases r) (auto simp: respond_def ProductResponse_init_def split: sum.splits prod.splits option.splits)

lemma responses_error: "responses txt ps = Inl e \<Longrightarrow> \<exists>m. e = ValidationError m"
proof (induction ps)
  case Nil
  then show ?case by simp
next
  case (Cons p ps)
  then show ?case
    by (auto simp: ProductResponse_init_def split: sum.splits prod.splits option.splits)
qed

lemma create_error:
  "ProductService_create_product d w = (Inl e, w') \<Longrightarrow> \<exists>m. e = DatabaseException m"
  by (auto simp: ProductService_create_product_def ProductRepository_create_def Let_def
      split: prod.splits sum.splits)

lemma find_all_error:
  "ProductRepository_find_all b w = (Inl e, w') \<Longrightarrow> \<exists>m. e = DatabaseException m"
  by (auto simp: ProductRepository_find_all_def Let_def split: prod.splits sum.splits)

lemma get_error:
  assumes "ProductService_get_product_by_id i w = (Inl e, w')"
  shows "(\<exists>m. e = DatabaseException m) \<or> e = ProductNotFoundException (uuid_str i) \<or>
         e = ProductAlreadyDeletedException (uuid_str i)"
proof -
  obtain r w1 where f: "ProductRepository_find_by_id i w = (r, w1)"
    by (cases "ProductRepository_find_by_id i w")
  show ?thesis
    using assms f find_by_id_error [of i w]
    by (auto simp: ProductService_get_product_by_id_def split: sum.splits option.splits if_splits)
qed

lemma update_error:
  assumes "ProductService_update_product i d w = (Inl e, w')"
  shows "(\<exists>m. e = DatabaseException m) \<or> e = ProductNotFoundException (uuid_str i) \<or>
         e = ProductAlreadyDeletedException (uuid_str i)"
proof -
  obtain r w1 where f: "ProductRepository_find_by_id i w = (r, w1)"
    by (cases "ProductRepository_find_by_id i w")
  show ?thesis
    using assms f find_by_id_error [of i w]
    by (auto simp: ProductService_update_product_def repository_update_eq update_eq
        split: sum.splits option.splits if_splits)
qed

lemma delete_error:
  assumes "ProductService_delete_product i w = (Inl e, w')"
  shows "(\<exists>m. e = DatabaseException m) \<or> e = ProductNotFoundException (uuid_str i) \<or>
         e = ProductAlreadyDeletedException (uuid_str i)"
proof -
  obtain r w1 where f: "ProductRepository_find_by_id i w = (r, w1)"
    by (cases "ProductRepository_find_by_id i w")
  show ?thesis
    using assms f find_by_id_error [of i w]
    by (auto simp: ProductService_delete_product_def repository_update_eq soft_delete_eq
        split: sum.splits option.splits if_splits)
qed

lemma update_except_spec:
  "update_product_except e = HTTPException (spec_status e) (spec_detail e)"
  by (cases e) (simp_all add: unexpected_def)

lemma get_except_spec:
  "(\<exists>m. e = DatabaseException m) \<or> (\<exists>m. e = ValidationError m) \<or>
   (\<exists>i. e = ProductNotFoundException i) \<or> (\<exists>i. e = ProductAlreadyDeletedException i) \<Longrightarrow>
   get_product_except e = HTTPException (spec_status e) (spec_detail e)"
  by (auto simp: unexpected_def)

lemma delete_except_spec:
  "(\<exists>m. e = DatabaseException m) \<or> (\<exists>m. e = ValidationError m) \<or>
   (\<exists>i. e = ProductNotFoundException i) \<or> (\<exists>i. e = ProductAlreadyDeletedException i) \<Longrightarrow>
   delete_product_except e = HTTPException (spec_status e) (spec_detail e)"
  by (auto simp: unexpected_def)

lemma create_except_spec:
  "(\<exists>m. e = DatabaseException m) \<or> (\<exists>m. e = ValidationError m) \<Longrightarrow>
   create_product_except e = HTTPException (spec_status e) (spec_detail e)"
  by (auto simp: unexpected_def)

lemma get_all_except_spec:
  "(\<exists>m. e = DatabaseException m) \<or> (\<exists>m. e = ValidationError m) \<Longrightarrow>
   get_all_products_except e = HTTPException (spec_status e) (spec_detail e)"
  by (auto simp: unexpected_def)

text \<open>
  C6. At each of the five product routes, whenever the \<^verbatim>\<open>try\<close> body raises an error the
  response is the \<^verbatim>\<open>HTTPException\<close> with the status and the detail of the specification's
  table: 404 and \<^verbatim>\<open>Product with id '<id>' not found\<close>, 410 and
  \<^verbatim>\<open>Product with id '<id>' has been deleted\<close>, 500 and \<^verbatim>\<open>Database error: \<close> followed by
  the cause, 400 and the message for a validation failure, and 500 with
  \<^verbatim>\<open>An unexpected error occurred: \<close> followed by the message for every other error. The
  \<^verbatim>\<open>except\<close> chain of the PUT route maps every error so, whether raised there or not.
\<close>

theorem router_error_mapping:
  "(create_product_try d w = (Inl e, w') \<longrightarrow>
      create_product d w = (HTTPException (spec_status e) (spec_detail e), w')) \<and>
   (get_all_products_try w = (Inl e, w') \<longrightarrow>
      get_all_products w = (HTTPException (spec_status e) (spec_detail e), w')) \<and>
   (get_product_try i w = (Inl e, w') \<longrightarrow>
      get_product i w = (HTTPException (spec_status e) (spec_detail e), w')) \<and>
   (update_product_try i u w = (Inl e, w') \<longrightarrow>
      update_product i u w = (HTTPException (spec_status e) (spec_detail e), w')) \<and>
   (delete_product_try i w = (Inl e, w') \<longrightarrow>
      delete_product i w = (HTTPException (spec_status e) (spec_detail e), w')) \<and>
   update_product_except x = (HTTPException (spec_status x) (spec_detail x) :: ProductResponse http) \<and>
   create_product_except (ProductValidationException m)
     = (HTTPException 400 m :: ProductResponse http) \<and>
   (unexpected x :: ProductResponse http)
     = HTTPException 500 (''An unexpected error occurred: '' @ str_exn x)"
proof -
  have 1: "create_product d w = (HTTPException (spec_status e) (spec_detail e), w')"
    if t: "create_product_try d w = (Inl e, w')"
  proof -
    have "(\<exists>m. e = DatabaseException m) \<or> (\<exists>m. e = ValidationError m)"
      using respond_error [OF t [unfolded create_product_try_def]] create_error by blast
    then show ?thesis
      using t by (simp add: create_product_def route_def create_except_spec)
  qed
  have 2: "get_all_products w = (HTTPException (spec_status e) (spec_detail e), w')"
    if t: "get_all_products_try w = (Inl e, w')"
  proof -
    have "(\<exists>m. e = DatabaseException m) \<or> (\<exists>m. e = ValidationError m)"
      using t find_all_error [of False w] responses_error
      by (auto simp: get_all_products_try_def ProductService_get_all_products_def
          split: prod.splits sum.splits)
    then show ?thesis
      using t by (simp add: get_all_products_def route_def get_all_except_spec)
  qed
  have 3: "get_product i w = (HTTPException (spec_status e) (spec_detail e), w')"
    if t: "get_product_try i w = (Inl e, w')"
  proof -
    have "(\<exists>m. e = DatabaseException m) \<or> (\<exists>m. e = ValidationError m) \<or>
      (\<exists>i. e = ProductNotFoundException i) \<or> (\<exists>i. e = ProductAlreadyDeletedException i)"
      using respond_error [OF t [unfolded get_product_try_def]] get_error by blast
    then show ?thesis
      using t by (simp add: get_product_def route_def get_except_spec)
  qed
  have 4: "update_product i u w = (HTTPException (spec_status e) (spec_detail e), w')"
    if t: "update_product_try i u w = (Inl e, w')"
    using t by (simp add: update_product_def route_def update_except_spec)
  have 5: "delete_product i w = (HTTPException (spec_status e) (spec_detail e), w')"
    if t: "delete_product_try i w = (Inl e, w')"
  proof -
    have "(\<exists>m. e = DatabaseException m) \<or> (\<exists>m. e = ValidationError m) \<or>
      (\<exists>i. e = ProductNotFoundException i) \<or> (\<exists>i. e = ProductAlreadyDeletedException i)"
      using respond_error [OF t [unfolded delete_product_try_def]] delete_error by blast
    then show ?thesis
      using t by (simp add: delete_product_def route_def delete_except_spec)
  qed
  show ?thesis
    using 1 2 3 4 5 by (simp add: update_except_spec unexpected_def)
qed

lemma find_in_empty:
  "ProductRepository_find_by_id i example_world = (Inr None, example_world)"
  by (simp add: ProductRepository_find_by_id_def find_one_def example_world_def)

lemma uuid4_example_store:
  "uuid4 example_store = (id' example_product, example_store\<lparr>uuid_draws := 1\<rparr>)"
  by (simp add: uuid4_def example_store_def example_world_def example_uuids_def example_product_def)

theorem router_error_mapping_witness:
  "get_product (id' example_product) example_world =
     (HTTPException 404
        (''Product with id '' @ [CHR 0x27] @ ''123e4567-e89b-12d3-a456-426614174000'' @ [CHR 0x27]
         @ '' not found''),
      example_world) \<and>
   delete_product (id' example_product) example_store =
     (HTTPException 410
        (''Product with id '' @ [CHR 0x27] @ ''123e4567-e89b-12d3-a456-426614174000'' @ [CHR 0x27]
         @ '' has been deleted''),
      example_store) \<and>
   update_product (id' example_product) (only_price 5) example_store =
     (HTTPException 410
        (''Product with id '' @ [CHR 0x27] @ ''123e4567-e89b-12d3-a456-426614174000'' @ [CHR 0x27]
         @ '' has been deleted''),
      example_store) \<and>
   fst (create_product
      \<lparr>pc_name = ''Mouse'', pc_description = None, pc_category = ''Electronics'', pc_price = 1,
       pc_stock = 1\<rparr> example_store) =
     HTTPException 500 ''Database error: Failed to create product: E11000 duplicate key error'' \<and>
   get_all_products (example_world\<lparr>documents := [Map.empty]\<rparr>) =
     (HTTPException 500
        (''Database error: Failed to find products: '' @ [CHR 0x27] @ ''id'' @ [CHR 0x27]),
      example_world\<lparr>documents := [Map.empty]\<rparr>)"
proof -
  let ?d = "\<lparr>pc_name = ''Mouse'', pc_description = None, pc_category = ''Electronics'',
             pc_price = 1, pc_stock = 1\<rparr>"
  let ?w = "example_world\<lparr>documents := [Map.empty]\<rparr>"
  have a: "get_product_try (id' example_product) example_world =
      (Inl (ProductNotFoundException (uuid_str (id' example_product))), example_world)"
    by (simp add: get_product_try_def ProductService_get_product_by_id_def find_in_empty respond_def)
  have b: "delete_product_try (id' example_product) example_store =
      (Inl (ProductAlreadyDeletedException (uuid_str (id' example_product))), example_store)"
    by (simp add: delete_product_try_def ProductService_delete_product_def find_example_product
        respond_def Product_is_deleted_def) (simp add: example_product_def)
  have c: "update_product_try (id' example_product) (only_price 5) example_store =
      (Inl (ProductAlreadyDeletedException (uuid_str (id' example_product))), example_store)"
    by (simp add: update_product_try_def ProductService_update_product_def find_example_product
        respond_def Product_is_deleted_def) (simp add: example_product_def)
  have d: "create_product_try ?d example_store =
      (Inl (DatabaseException ''Failed to create product: E11000 duplicate key error''),
       snd (create_product_try ?d example_store))"
    by (simp add: create_product_try_def ProductService_create_product_def Product_init_def
        uuid4_example_store utcnow_def ProductRepository_create_def insert_one_def respond_def
        int_fits_def)
      (simp add: example_store_def)
  have e: "get_all_products_try ?w =
      (Inl (DatabaseException (''Failed to find products: '' @ [CHR 0x27] @ ''id'' @ [CHR 0x27])), ?w)"
    by (simp add: get_all_products_try_def ProductService_get_all_products_def
        ProductRepository_find_all_def find_docs_def doc_active_def Product_from_dict_def
        arg_id_def)
  show ?thesis
    using router_error_mapping [THEN conjunct2,
        THEN conjunct2, THEN conjunct1, rule_format, OF a]
      router_error_mapping [THEN conjunct2,
        THEN conjunct2, THEN conjunct2, THEN conjunct2, THEN conjunct1, rule_format, OF b]
      router_error_mapping [THEN conjunct2,
        THEN conjunct2, THEN conjunct2, THEN conjunct1, rule_format, OF c]
      router_error_mapping [THEN conjunct1, rule_format, OF d]
      router_error_mapping [THEN conjunct2, THEN conjunct1, rule_format, OF e]
    by (simp add: uuid_str_product)
qed

section \<open>The repository's update\<close>

text \<open>
  C8. For a product the driver can encode, that is, whose stock fits the store's 8-byte
  integers, the repository's update succeeds and leaves the whole collection as it was when
  no stored document has the string form of the product's id as its \<open>id\<close>: no document is
  created and none is modified. When a document matches, the first such document takes
  every field of the serialised product and keeps its other fields, and the documents
  around it stay as they were. For a product the driver cannot encode, the update raises
  \<^verbatim>\<open>DatabaseException\<close> through the repository's \<^verbatim>\<open>except\<close> clause, and the collection is
  left as it was, match or no match.
\<close>

theorem repository_update_effect:
  "(int_fits (stock p) \<and>
    (\<forall>x\<in>set (documents w). x ''id'' \<noteq> Some (VStr (uuid_str (id' p))))
     \<longrightarrow> ProductRepository_update p w = (Inr p, w)) \<and>
   (int_fits (stock p) \<and> documents w = ds1 @ d # ds2 \<and>
    (\<forall>x\<in>set ds1. x ''id'' \<noteq> Some (VStr (uuid_str (id' p)))) \<and>
    d ''id'' = Some (VStr (uuid_str (id' p)))
     \<longrightarrow> ProductRepository_update p w
           = (Inr p, w\<lparr>documents := ds1 @ (d ++ Product_to_dict p) # ds2\<rparr>) \<and>
         (\<forall>k\<in>dom (Product_to_dict p). (d ++ Product_to_dict p) k = Product_to_dict p k) \<and>
         (\<forall>k. k \<notin> dom (Product_to_dict p) \<longrightarrow> (d ++ Product_to_dict p) k = d k)) \<and>
   (\<not> int_fits (stock p)
     \<longrightarrow> ProductRepository_update p w
           = (Inl (DatabaseException
                    ''Failed to update product: MongoDB can only handle up to 8-byte ints''),
              w))"
proof -
  have 1: "ProductRepository_update p w = (Inr p, w)"
    if "int_fits (stock p)"
      "\<forall>x\<in>set (documents w). x ''id'' \<noteq> Some (VStr (uuid_str (id' p)))"
    using that by (simp add: repository_update_eq set_first_none)
  have 2: "ProductRepository_update p w
           = (Inr p, w\<lparr>documents := ds1 @ (d ++ Product_to_dict p) # ds2\<rparr>)"
    if "int_fits (stock p)" "documents w = ds1 @ d # ds2"
      "\<forall>x\<in>set ds1. x ''id'' \<noteq> Some (VStr (uuid_str (id' p)))"
      "d ''id'' = Some (VStr (uuid_str (id' p)))"
    using that by (simp add: repository_update_eq set_first_split)
  have 3: "\<forall>k\<in>dom (Product_to_dict p). (d ++ Product_to_dict p) k = Product_to_dict p k"
    by (auto simp: map_add_def)
  have 4: "\<forall>k. k \<notin> dom (Product_to_dict p) \<longrightarrow> (d ++ Product_to_dict p) k = d k"
    by (auto simp: map_add_def split: option.splits)
  have 5: "ProductRepository_update p w
           = (Inl (DatabaseException
                    ''Failed to update product: MongoDB can only handle up to 8-byte ints''),
              w)"
    if "\<not> int_fits (stock p)"
    using that by (simp add: repository_update_eq)
  show ?thesis using 1 2 3 4 5 by blast
qed

theorem repository_update_effect_witness:
  "int_fits (stock example_active) \<and>
   ProductRepository_update (example_active\<lparr>id' := 2\<rparr>) example_store
     = (Inr (example_active\<lparr>id' := 2\<rparr>), example_store) \<and>
   ProductRepository_update (example_active\<lparr>price := 5\<rparr>) example_store
     = (Inr (example_active\<lparr>price := 5\<rparr>),
        example_store\<lparr>documents :=
          [(Product_to_dict (example_active\<lparr>price := 5\<rparr>))(''_id'' \<mapsto> VObjectId 0),
           (Product_to_dict example_product)(''_id'' \<mapsto> VObjectId 1)]\<rparr>) \<and>
   \<not> int_fits (2 ^ 70) \<and>
   ProductRepository_update (example_active\<lparr>stock := 2 ^ 70\<rparr>) example_store
     = (Inl (DatabaseException
              ''Failed to update product: MongoDB can only handle up to 8-byte ints''),
        example_store)"
proof -
  let ?p = "example_active\<lparr>price := 5\<rparr>"
  let ?d = "(Product_to_dict example_active)(''_id'' \<mapsto> VObjectId 0)"
  let ?ds = "[(Product_to_dict example_product)(''_id'' \<mapsto> VObjectId 1)]"
  have u2: "uuid_str 2 = ''00000000-0000-0000-0000-000000000002''"
    by (simp add: uuid_str_def to_digits_unfold digit_char_def)
  have f: "int_fits (stock example_active)" by (simp add: int_fits_def example_active_def)
  have g: "\<not> int_fits (2 ^ 70)" by (simp add: int_fits_def)
  have h1: "int_fits (stock (example_active\<lparr>id' := 2\<rparr>)) \<and>
      (\<forall>x\<in>set (documents example_store).
         x ''id'' \<noteq> Some (VStr (uuid_str (id' (example_active\<lparr>id' := 2\<rparr>)))))"
    using f by (simp add: example_store_def uuid_str_active uuid_str_product u2)
  have h2: "int_fits (stock ?p) \<and> documents example_store = [] @ ?d # ?ds \<and>
    (\<forall>x\<in>set []. x ''id'' \<noteq> Some (VStr (uuid_str (id' ?p)))) \<and>
    ?d ''id'' = Some (VStr (uuid_str (id' ?p)))"
    using f by (simp add: example_store_def)
  have h3: "\<not> int_fits (stock (example_active\<lparr>stock := 2 ^ 70\<rparr>))"
    using g by simp
  have m: "?d ++ Product_to_dict ?p = (Product_to_dict ?p)(''_id'' \<mapsto> VObjectId 0)"
    by (rule ext) (simp add: map_add_def Product_to_dict_def)
  show ?thesis
    using repository_update_effect [THEN conjunct1, THEN mp, OF h1]
      repository_update_effect [THEN conjunct2, THEN conjunct1, THEN mp, OF h2, THEN conjunct1]
      repository_update_effect [THEN conjunct2, THEN conjunct2, THEN mp, OF h3] f g
    by (simp add: m)
qed

theorem null_is_omitted_witness:
  "fst (ProductService_update_product (id' example_active)
     \<lparr>pu_name = Unset, pu_description = Given None, pu_category = Given None,
      pu_price = Given (Some 5), pu_stock = Unset\<rparr> example_store)
   = Inr (example_active\<lparr>price := 5, updated_at := example_clock 10\<rparr>) \<and>
   description (example_active\<lparr>price := 5, updated_at := example_clock 10\<rparr>) = Some ''Mechanical''"
proof -
  let ?u = "\<lparr>pu_name = Unset, pu_description = Given None, pu_category = Given None,
      pu_price = Given (Some 5), pu_stock = Unset\<rparr>"
  have a: "deleted_at example_active = None" by (simp add: example_active_def)
  have c: "clock example_store (clock_reads example_store) = example_clock 10"
    by (simp add: example_store_def example_world_def)
  have "\<exists>w'. ProductService_update_product (id' example_active) ?u example_store =
     (Inr (example_active\<lparr>price := 5, updated_at := example_clock 10\<rparr>), w')"
    unfolding update_product_active [OF find_example_active a] repository_update_eq
    by (simp add: update_data_get_def c) (simp add: int_fits_def example_active_def)
  then obtain w' where r: "ProductService_update_product (id' example_active) ?u example_store =
     (Inr (example_active\<lparr>price := 5, updated_at := example_clock 10\<rparr>), w')"
    by blast
  have "description (example_active\<lparr>price := 5, updated_at := example_clock 10\<rparr>)
      = description example_active"
    using null_is_omitted [THEN conjunct2, THEN mp, OF conjI [OF find_example_active r],
        THEN conjunct1]
    by simp
  then show ?thesis using r by (simp add: example_active_def)
qed


section \<open>The lifecycle errors of the service\<close>

lemma service_update_Inr:
  assumes "ProductService_update_product i u w = (Inr p', w')"
  obtains p w1 where "ProductRepository_find_by_id i w = (Inr (Some p), w1)" "deleted_at p = None"
proof -
  obtain r w1 where f: "ProductRepository_find_by_id i w = (r, w1)"
    by (cases "ProductRepository_find_by_id i w")
  show ?thesis
    using assms f that
    by (auto simp: ProductService_update_product_def Product_is_deleted_def
        split: sum.splits option.splits if_splits)
qed

lemma delete_product_active:
  assumes "ProductRepository_find_by_id i w = (Inr (Some p), w1)" "deleted_at p = None"
  shows "ProductService_delete_product i w =
     ProductRepository_update
       (p\<lparr>deleted_at := Some (clock w1 (clock_reads w1)),
          updated_at := clock w1 (Suc (clock_reads w1))\<rparr>)
       (w1\<lparr>clock_reads := Suc (Suc (clock_reads w1))\<rparr>)"
  using assms
  by (simp add: ProductService_delete_product_def Product_is_deleted_def soft_delete_eq)

lemma service_delete_Inr:
  assumes "ProductService_delete_product i w = (Inr p', w')"
  obtains p w1 where "ProductRepository_find_by_id i w = (Inr (Some p), w1)" "deleted_at p = None"
proof -
  obtain r w1 where f: "ProductRepository_find_by_id i w = (r, w1)"
    by (cases "ProductRepository_find_by_id i w")
  show ?thesis
    using assms f that
    by (auto simp: ProductService_delete_product_def Product_is_deleted_def
        split: sum.splits option.splits if_splits)
qed

text \<open>A successful update or delete rewrites the first document with the id, an active one.\<close>

lemma rewrite_found:
  assumes f: "ProductRepository_find_by_id i w = (Inr (Some p), w1)" and a: "deleted_at p = None"
    and i: "id' p' = id' p"
    and r: "ProductRepository_update p' w2 = (Inr q, w')" and d: "documents w2 = documents w1"
  obtains ds1 d ds2 where "documents w = ds1 @ d # ds2" "doc_active d"
    "Product_from_dict (d(''_id'' := None)) w = (Inr p, w1)"
    "documents w' = ds1 @ (d ++ Product_to_dict p') # ds2" "q = p'"
proof -
  from f obtain ds1 d ds2 where s: "documents w = ds1 @ d # ds2"
      "d ''id'' = Some (VStr (uuid_str i))"
      "\<forall>y\<in>set ds1. y ''id'' \<noteq> Some (VStr (uuid_str i))"
      "Product_from_dict (d(''_id'' := None)) w = (Inr p, w1)"
      "id' p = i" "deleted_at p = None \<longleftrightarrow> doc_active d" "documents w1 = documents w"
    by (rule find_by_id_Some)
  have act: "doc_active d" using s(6) a by simp
  have "documents w' = set_first [(''id'', VStr (uuid_str i))] (Product_to_dict p') (documents w)"
    using r d s(5,7) i by (auto simp: repository_update_eq split: if_splits)
  then have 1: "documents w' = ds1 @ (d ++ Product_to_dict p') # ds2"
    using s(1,2,3) by (simp add: set_first_split)
  have 2: "q = p'" using r by (auto simp: repository_update_eq split: if_splits)
  show ?thesis by (rule that [OF s(1) act s(4) 1 2])
qed

lemma service_update_docs:
  assumes "ProductService_update_product i u w = (Inr p', w')"
  obtains p w1 ds1 d ds2 where "documents w = ds1 @ d # ds2" "doc_active d"
    "Product_from_dict (d(''_id'' := None)) w = (Inr p, w1)"
    "documents w' = ds1 @ (d ++ Product_to_dict p') # ds2"
    "deleted_at p' = None" "created_at p' = created_at p"
    "updated_at p' = clock w (clock_reads w1)" "clock w' = clock w"
proof -
  from assms obtain p w1 where f: "ProductRepository_find_by_id i w = (Inr (Some p), w1)"
    and a: "deleted_at p = None"
    by (rule service_update_Inr)
  let ?p = "p\<lparr>name := (case update_data_get (pu_name u) of Some v \<Rightarrow> v | None \<Rightarrow> name p),
          description := (case update_data_get (pu_description u) of Some v \<Rightarrow> Some v
                          | None \<Rightarrow> description p),
          category := (case update_data_get (pu_category u) of Some v \<Rightarrow> v | None \<Rightarrow> category p),
          price := (case update_data_get (pu_price u) of Some v \<Rightarrow> v | None \<Rightarrow> price p),
          stock := (case update_data_get (pu_stock u) of Some v \<Rightarrow> v | None \<Rightarrow> stock p),
          updated_at := clock w1 (clock_reads w1)\<rparr>"
  let ?w = "w1\<lparr>clock_reads := Suc (clock_reads w1)\<rparr>"
  have r: "ProductRepository_update ?p ?w = (Inr p', w')"
    using assms unfolding update_product_active [OF f a] .
  have c: "clock w1 = clock w" using find_by_id_frame [OF f] by simp
  have c': "clock w' = clock w" using r c by (auto simp: repository_update_eq split: if_splits)
  from f a _ r obtain ds1 d ds2 where s: "documents w = ds1 @ d # ds2" "doc_active d"
    "Product_from_dict (d(''_id'' := None)) w = (Inr p, w1)"
    "documents w' = ds1 @ (d ++ Product_to_dict ?p) # ds2" "p' = ?p"
    by (rule rewrite_found) simp_all
  have e: "p' = ?p" using s(5) by simp
  show ?thesis
    using that [OF s(1) s(2) s(3) s(4) [folded e]] a c c' unfolding e by simp
qed

lemma service_delete_docs:
  assumes "ProductService_delete_product i w = (Inr p', w')"
  obtains p w1 ds1 d ds2 where "documents w = ds1 @ d # ds2" "doc_active d"
    "Product_from_dict (d(''_id'' := None)) w = (Inr p, w1)"
    "documents w' = ds1 @ (d ++ Product_to_dict p') # ds2"
    "p' = p\<lparr>deleted_at := Some (clock w (clock_reads w1)),
              updated_at := clock w (Suc (clock_reads w1))\<rparr>" "clock w' = clock w"
proof -
  from assms obtain p w1 where f: "ProductRepository_find_by_id i w = (Inr (Some p), w1)"
    and a: "deleted_at p = None"
    by (rule service_delete_Inr)
  let ?p = "p\<lparr>deleted_at := Some (clock w1 (clock_reads w1)),
          updated_at := clock w1 (Suc (clock_reads w1))\<rparr>"
  let ?w = "w1\<lparr>clock_reads := Suc (Suc (clock_reads w1))\<rparr>"
  have r: "ProductRepository_update ?p ?w = (Inr p', w')"
    using assms unfolding delete_product_active [OF f a] .
  have c: "clock w1 = clock w" using find_by_id_frame [OF f] by simp
  have c': "clock w' = clock w" using r c by (auto simp: repository_update_eq split: if_splits)
  from f a _ r obtain ds1 d ds2 where s: "documents w = ds1 @ d # ds2" "doc_active d"
    "Product_from_dict (d(''_id'' := None)) w = (Inr p, w1)"
    "documents w' = ds1 @ (d ++ Product_to_dict ?p) # ds2" "p' = ?p"
    by (rule rewrite_found) simp_all
  have e: "p' = ?p" using s(5) by simp
  show ?thesis
    using that [OF s(1) s(2) s(3) s(4) [folded e]] c c' unfolding e by simp
qed

text \<open>A failed update or delete, and every read, leaves the documents as they were.\<close>

lemma service_get_frame:
  "ProductService_get_product_by_id i w = (r, w') \<Longrightarrow>
   documents w' = documents w \<and> clock w' = clock w"
proof -
  assume g: "ProductService_get_product_by_id i w = (r, w')"
  obtain r1 w1 where f: "ProductRepository_find_by_id i w = (r1, w1)"
    by (cases "ProductRepository_find_by_id i w")
  have "w' = w1" using g f
    by (auto simp: ProductService_get_product_by_id_def split: sum.splits option.splits if_splits)
  then show ?thesis using find_by_id_frame [OF f] by simp
qed

lemma service_update_Inl:
  assumes "ProductService_update_product i u w = (Inl e, w')"
  shows "documents w' = documents w \<and> clock w' = clock w"
proof -
  obtain r1 w1 where f: "ProductRepository_find_by_id i w = (r1, w1)"
    by (cases "ProductRepository_find_by_id i w")
  have "documents w' = documents w1 \<and> clock w' = clock w1" using assms f
    by (auto simp: ProductService_update_product_def repository_update_eq update_eq
        split: sum.splits option.splits if_splits)
  then show ?thesis using find_by_id_frame [OF f] by simp
qed

lemma service_delete_Inl:
  assumes "ProductService_delete_product i w = (Inl e, w')"
  shows "documents w' = documents w \<and> clock w' = clock w"
proof -
  obtain r1 w1 where f: "ProductRepository_find_by_id i w = (r1, w1)"
    by (cases "ProductRepository_find_by_id i w")
  have "documents w' = documents w1 \<and> clock w' = clock w1" using assms f
    by (auto simp: ProductService_delete_product_def repository_update_eq soft_delete_eq
        split: sum.splits option.splits if_splits)
  then show ?thesis using find_by_id_frame [OF f] by simp
qed

lemma from_dicts_frame:
  "from_dicts ds w = (r, w') \<Longrightarrow> documents w' = documents w \<and> clock w' = clock w"
proof (induction ds arbitrary: w r w')
  case Nil
  then show ?case by simp
next
  case (Cons d ds)
  obtain r1 w1 where f: "Product_from_dict (d(''_id'' := None)) w = (r1, w1)"
    by (cases "Product_from_dict (d(''_id'' := None)) w")
  note fr = from_dict_frame [OF f]
  show ?case
  proof (cases r1)
    case (Inl e)
    then show ?thesis using Cons.prems f fr by simp
  next
    case (Inr p)
    obtain r2 w2 where g: "from_dicts ds w1 = (r2, w2)" by (cases "from_dicts ds w1")
    have "w' = w2" using Cons.prems f Inr g by (auto split: sum.splits)
    then show ?thesis using Cons.IH [OF g] fr by simp
  qed
qed

lemma service_get_all_frame:
  "ProductService_get_all_products w = (r, w') \<Longrightarrow>
   documents w' = documents w \<and> clock w' = clock w"
proof -
  assume g: "ProductService_get_all_products w = (r, w')"
  obtain r1 w1 where f: "from_dicts (find_docs [(''deletedAt'', VNone)] w) w = (r1, w1)"
    by (cases "from_dicts (find_docs [(''deletedAt'', VNone)] w) w")
  have "w' = w1" using g f
    by (auto simp: ProductService_get_all_products_def ProductRepository_find_all_def
        split: sum.splits)
  then show ?thesis using from_dicts_frame [OF f] by simp
qed

lemma lifecycle_get:
  "(is_not_found (fst (ProductService_get_product_by_id i w)) \<longleftrightarrow>
      fst (ProductRepository_find_by_id i w) = Inr None) \<and>
   (is_already_deleted (fst (ProductService_get_product_by_id i w)) \<longleftrightarrow>
      (\<exists>p. fst (ProductRepository_find_by_id i w) = Inr (Some p) \<and> deleted_at p \<noteq> None))"
proof -
  obtain r1 w1 where f: "ProductRepository_find_by_id i w = (r1, w1)"
    by (cases "ProductRepository_find_by_id i w")
  show ?thesis
    using f find_by_id_error [of i w _ w1]
    by (auto simp: ProductService_get_product_by_id_def Product_is_deleted_def
        is_not_found_def is_already_deleted_def split: sum.splits option.splits)
qed

lemma lifecycle_update:
  "(is_not_found (fst (ProductService_update_product i u w)) \<longleftrightarrow>
      fst (ProductRepository_find_by_id i w) = Inr None) \<and>
   (is_already_deleted (fst (ProductService_update_product i u w)) \<longleftrightarrow>
      (\<exists>p. fst (ProductRepository_find_by_id i w) = Inr (Some p) \<and> deleted_at p \<noteq> None))"
proof -
  obtain r1 w1 where f: "ProductRepository_find_by_id i w = (r1, w1)"
    by (cases "ProductRepository_find_by_id i w")
  show ?thesis
    using f find_by_id_error [of i w _ w1]
    by (auto simp: ProductService_update_product_def Product_is_deleted_def update_eq
        repository_update_eq is_not_found_def is_already_deleted_def
        split: sum.splits option.splits)
qed

lemma lifecycle_delete:
  "(is_not_found (fst (ProductService_delete_product i w)) \<longleftrightarrow>
      fst (ProductRepository_find_by_id i w) = Inr None) \<and>
   (is_already_deleted (fst (ProductService_delete_product i w)) \<longleftrightarrow>
      (\<exists>p. fst (ProductRepository_find_by_id i w) = Inr (Some p) \<and> deleted_at p \<noteq> None))"
proof -
  obtain r1 w1 where f: "ProductRepository_find_by_id i w = (r1, w1)"
    by (cases "ProductRepository_find_by_id i w")
  show ?thesis
    using f find_by_id_error [of i w _ w1]
    by (auto simp: ProductService_delete_product_def Product_is_deleted_def soft_delete_eq
        repository_update_eq is_not_found_def is_already_deleted_def
        split: sum.splits option.splits)
qed

lemma error_keeps_documents:
  "documents (snd (ProductService_get_product_by_id i w)) = documents w"
  "is_not_found (fst (ProductService_update_product i u w)) \<or>
   is_already_deleted (fst (ProductService_update_product i u w)) \<Longrightarrow>
     documents (snd (ProductService_update_product i u w)) = documents w"
  "is_not_found (fst (ProductService_delete_product i w)) \<or>
   is_already_deleted (fst (ProductService_delete_product i w)) \<Longrightarrow>
     documents (snd (ProductService_delete_product i w)) = documents w"
proof -
  show "documents (snd (ProductService_get_product_by_id i w)) = documents w"
    using service_get_frame [OF prod.collapse [symmetric]] by simp
next
  assume a: "is_not_found (fst (ProductService_update_product i u w)) \<or>
   is_already_deleted (fst (ProductService_update_product i u w))"
  then obtain e where "fst (ProductService_update_product i u w) = Inl e"
    by (cases "fst (ProductService_update_product i u w)")
      (auto simp: is_not_found_def is_already_deleted_def)
  then have "ProductService_update_product i u w =
      (Inl e, snd (ProductService_update_product i u w))"
    by (metis prod.collapse)
  from service_update_Inl [OF this]
  show "documents (snd (ProductService_update_product i u w)) = documents w" by simp
next
  assume a: "is_not_found (fst (ProductService_delete_product i w)) \<or>
   is_already_deleted (fst (ProductService_delete_product i w))"
  then obtain e where "fst (ProductService_delete_product i w) = Inl e"
    by (cases "fst (ProductService_delete_product i w)")
      (auto simp: is_not_found_def is_already_deleted_def)
  then have "ProductService_delete_product i w =
      (Inl e, snd (ProductService_delete_product i w))"
    by (metis prod.collapse)
  from service_delete_Inl [OF this]
  show "documents (snd (ProductService_delete_product i w)) = documents w" by simp
qed

lemma create_documents:
  assumes "ProductService_create_product c w = (r, w')"
  shows "clock w' = clock w \<and>
    (case r of
       Inl e \<Rightarrow> documents w' = documents w
     | Inr p \<Rightarrow> (\<exists>v. documents w' = documents w @ [(Product_to_dict p)(''_id'' \<mapsto> v)]) \<and>
         deleted_at p = None \<and> created_at p = clock w (clock_reads w) \<and>
         updated_at p = clock w (Suc (clock_reads w)))"
  using assms
  by (auto simp: ProductService_create_product_def Product_init_def uuid4_def utcnow_def
      ProductRepository_create_def insert_one_def split: if_splits)

text \<open>No call of the service touches a document whose deletion time is set.\<close>

lemma step_keeps_deleted:
  assumes "k < length (documents w)" "\<not> doc_active (documents w ! k)"
  shows "k < length (documents (snd (service_step x w))) \<and>
         documents (snd (service_step x w)) ! k = documents w ! k"
proof (cases x)
  case (CreateProduct c)
  obtain r w' where s: "ProductService_create_product c w = (r, w')"
    by (cases "ProductService_create_product c w")
  show ?thesis
    using create_documents [OF s] assms(1) s CreateProduct
    by (cases r) (auto simp: succeeded_def nth_append)
next
  case (GetProduct i)
  obtain r w' where s: "ProductService_get_product_by_id i w = (r, w')"
    by (cases "ProductService_get_product_by_id i w")
  show ?thesis
    using service_get_frame [OF s] assms(1) s GetProduct
    by (cases r) (auto simp: succeeded_def)
next
  case GetAllProducts
  obtain r w' where s: "ProductService_get_all_products w = (r, w')"
    by (cases "ProductService_get_all_products w")
  show ?thesis
    using service_get_all_frame [OF s] assms(1) s GetAllProducts
    by (cases r) (auto simp: succeeded_def)
next
  case (UpdateProduct i u)
  obtain r w' where s: "ProductService_update_product i u w = (r, w')"
    by (cases "ProductService_update_product i u w")
  show ?thesis
  proof (cases r)
    case (Inl e)
    then show ?thesis
      using service_update_Inl [of i u w e w'] s assms(1) UpdateProduct
      by (simp add: succeeded_def)
  next
    case (Inr p')
    from s [unfolded Inr] obtain p w1 ds1 d ds2 where
      d: "documents w = ds1 @ d # ds2" "doc_active d"
        "documents w' = ds1 @ (d ++ Product_to_dict p') # ds2"
      by (rule service_update_docs)
    have "k \<noteq> length ds1" using assms(2) d(1,2) by auto
    then show ?thesis
      using d assms(1) s Inr UpdateProduct
      by (auto simp: succeeded_def nth_append nth_Cons split: nat.splits)
  qed
next
  case (DeleteProduct i)
  obtain r w' where s: "ProductService_delete_product i w = (r, w')"
    by (cases "ProductService_delete_product i w")
  show ?thesis
  proof (cases r)
    case (Inl e)
    then show ?thesis
      using service_delete_Inl [of i w e w'] s assms(1) DeleteProduct
      by (simp add: succeeded_def)
  next
    case (Inr p')
    from s [unfolded Inr] obtain p w1 ds1 d ds2 where
      d: "documents w = ds1 @ d # ds2" "doc_active d"
        "documents w' = ds1 @ (d ++ Product_to_dict p') # ds2"
      by (rule service_delete_docs)
    have "k \<noteq> length ds1" using assms(2) d(1,2) by auto
    then show ?thesis
      using d assms(1) s Inr DeleteProduct
      by (auto simp: succeeded_def nth_append nth_Cons split: nat.splits)
  qed
qed

text \<open>
  C1. For every product id and every collection, each of the service's get, update and delete
  raises \<^verbatim>\<open>ProductNotFoundException\<close> exactly when the repository's find-by-id yields no
  record, and \<^verbatim>\<open>ProductAlreadyDeletedException\<close> exactly when it yields a record whose
  \<open>deleted_at\<close> is set; in both cases the documents of the collection are left as they
  were; and no call of the service, whatever it is, changes a stored document whose deletion
  time is set, so a deleted record never becomes active again.
\<close>

theorem lifecycle_errors:
  "(is_not_found (fst (ProductService_get_product_by_id i w)) \<longleftrightarrow>
      fst (ProductRepository_find_by_id i w) = Inr None) \<and>
   (is_not_found (fst (ProductService_update_product i u w)) \<longleftrightarrow>
      fst (ProductRepository_find_by_id i w) = Inr None) \<and>
   (is_not_found (fst (ProductService_delete_product i w)) \<longleftrightarrow>
      fst (ProductRepository_find_by_id i w) = Inr None) \<and>
   (is_already_deleted (fst (ProductService_get_product_by_id i w)) \<longleftrightarrow>
      (\<exists>p. fst (ProductRepository_find_by_id i w) = Inr (Some p) \<and> deleted_at p \<noteq> None)) \<and>
   (is_already_deleted (fst (ProductService_update_product i u w)) \<longleftrightarrow>
      (\<exists>p. fst (ProductRepository_find_by_id i w) = Inr (Some p) \<and> deleted_at p \<noteq> None)) \<and>
   (is_already_deleted (fst (ProductService_delete_product i w)) \<longleftrightarrow>
      (\<exists>p. fst (ProductRepository_find_by_id i w) = Inr (Some p) \<and> deleted_at p \<noteq> None)) \<and>
   documents (snd (ProductService_get_product_by_id i w)) = documents w \<and>
   (is_not_found (fst (ProductService_update_product i u w)) \<or>
    is_already_deleted (fst (ProductService_update_product i u w)) \<longrightarrow>
      documents (snd (ProductService_update_product i u w)) = documents w) \<and>
   (is_not_found (fst (ProductService_delete_product i w)) \<or>
    is_already_deleted (fst (ProductService_delete_product i w)) \<longrightarrow>
      documents (snd (ProductService_delete_product i w)) = documents w) \<and>
   (k < length (documents w) \<and> \<not> doc_active (documents w ! k) \<longrightarrow>
      k < length (documents (snd (service_step x w))) \<and>
      documents (snd (service_step x w)) ! k = documents w ! k)"
  using lifecycle_get [of i w] lifecycle_update [of i u w] lifecycle_delete [of i w]
    error_keeps_documents(1) [of i w] error_keeps_documents(2) [of i u w]
    error_keeps_documents(3) [of i w] step_keeps_deleted [of k w x]
  by simp

lemma uuid_str_2: "uuid_str 2 = ''00000000-0000-0000-0000-000000000002''"
  by (simp add: uuid_str_def to_digits_unfold digit_char_def)

lemma find_missing: "ProductRepository_find_by_id 2 example_store = (Inr None, example_store)"
  by (simp add: ProductRepository_find_by_id_def find_one_def example_store_def
      uuid_str_2 uuid_str_active uuid_str_product)

theorem lifecycle_errors_witness:
  "is_not_found (fst (ProductService_get_product_by_id 2 example_store)) \<and>
   is_not_found (fst (ProductService_update_product 2 (only_price 5) example_store)) \<and>
   is_not_found (fst (ProductService_delete_product 2 example_store)) \<and>
   is_already_deleted (fst (ProductService_get_product_by_id (id' example_product) example_store)) \<and>
   is_already_deleted
     (fst (ProductService_update_product (id' example_product) (only_price 5) example_store)) \<and>
   is_already_deleted (fst (ProductService_delete_product (id' example_product) example_store)) \<and>
   documents (snd (ProductService_update_product (id' example_product) (only_price 5) example_store))
     = documents example_store \<and>
   documents (snd (ProductService_delete_product (id' example_product) example_store))
     = documents example_store \<and>
   \<not> doc_active (documents example_store ! 1) \<and>
   documents (snd (service_step (DeleteProduct (id' example_active)) example_store)) ! 1
     = documents example_store ! 1"
proof -
  have d: "deleted_at example_product \<noteq> None" by (simp add: example_product_def)
  have k: "1 < length (documents example_store) \<and> \<not> doc_active (documents example_store ! 1)"
    by (simp add: example_store_def doc_active_def Product_to_dict_def example_product_def)
  show ?thesis
    using lifecycle_errors [of 2 example_store "only_price 5" 1
        "DeleteProduct (id' example_active)"]
      lifecycle_errors [of "id' example_product" example_store "only_price 5" 1
        "DeleteProduct (id' example_active)"]
      d k
    by (simp add: find_missing find_example_product)
qed


section \<open>Listing the active products\<close>

lemma uuid_str_inj [simp]: "uuid_str a = uuid_str b \<longleftrightarrow> a = b"
proof
  assume "uuid_str a = uuid_str b"
  then have "UUID (uuid_str a) = UUID (uuid_str b)" by simp
  then show "a = b" by (simp add: UUID_uuid_str)
qed simp

lemma isoformat_not_empty [simp]: "isoformat t \<noteq> []"
  by (simp add: isoformat_def to_digits_unfold)

lemma response_deleted_at:
  assumes "ProductResponse_init txt (Product_to_dict p) = Inr r" "deleted_at p = None"
  shows "r_deletedAt r = None"
  using assms
  by (auto simp: ProductResponse_init_def Product_to_dict_def resp_opt_datetime_def
      split: option.splits)

lemma response_of_valid:
  assumes "valid_product p"
  shows "ProductResponse_init txt (Product_to_dict p) =
     Inr \<lparr>r_id = id' p, r_name = name p, r_description = description p,
          r_category = category p, r_price = price p, r_stock = stock p,
          r_createdAt = created_at p, r_updatedAt = updated_at p, r_deletedAt = deleted_at p\<rparr>"
proof -
  have c: "fromisoformat (isoformat (created_at p)) = Inr (created_at p)"
    and u: "fromisoformat (isoformat (updated_at p)) = Inr (updated_at p)"
    using assms by (simp_all add: valid_product_def fromisoformat_isoformat)
  have 1: "resp_uuid (Some (VStr (uuid_str (id' p)))) = Some (id' p)"
    by (simp add: resp_uuid_def UUID_uuid_str)
  have 2: "resp_str (Product_to_dict p ''name'') = Some (name p)"
    "resp_str (Product_to_dict p ''category'') = Some (category p)"
    "resp_float (Product_to_dict p ''price'') = Some (price p)"
    "resp_int (Product_to_dict p ''stock'') = Some (stock p)"
    by (simp_all add: resp_str_def resp_float_def resp_int_def Product_to_dict_def)
  have 3: "resp_opt_str (Product_to_dict p ''description'') = Some (description p)"
    by (simp add: resp_opt_str_def Product_to_dict_def split: option.splits)
  have 4: "resp_datetime (Product_to_dict p ''createdAt'') = Some (created_at p)"
    "resp_datetime (Product_to_dict p ''updatedAt'') = Some (updated_at p)"
    by (simp_all add: resp_datetime_def Product_to_dict_def c u)
  have 5: "resp_opt_datetime (Product_to_dict p ''deletedAt'') = Some (deleted_at p)"
  proof (cases "deleted_at p")
    case None
    then show ?thesis by (simp add: resp_opt_datetime_def Product_to_dict_def)
  next
    case (Some t)
    then have "fromisoformat (isoformat t) = Inr t"
      using assms by (simp add: valid_product_def fromisoformat_isoformat)
    then show ?thesis
      using Some by (simp add: resp_opt_datetime_def resp_datetime_def Product_to_dict_def)
  qed
  show ?thesis
    by (simp add: ProductResponse_init_def 1 2 3 4 5)
qed

lemma responses_length:
  "responses txt ps = Inr rs \<Longrightarrow>
   length rs = length ps \<and> ((\<forall>p\<in>set ps. deleted_at p = None) \<longrightarrow> (\<forall>r\<in>set rs. r_deletedAt r = None))"
proof (induction ps arbitrary: rs)
  case Nil
  then show ?case by simp
next
  case (Cons p ps)
  from Cons.prems obtain r rs' where r: "ProductResponse_init txt (Product_to_dict p) = Inr r"
    and rs': "responses txt ps = Inr rs'" and e: "rs = r # rs'"
    by (auto split: sum.splits)
  show ?case
    using Cons.IH [OF rs'] response_deleted_at [OF r] e by auto
qed

lemma responses_valid:
  "list_all valid_product ps \<Longrightarrow> \<exists>rs. responses txt ps = Inr rs"
  by (induction ps) (auto simp: response_of_valid)

lemma doc_active_drop_oid [simp]: "doc_active (d(''_id'' := None)) = doc_active d"
  by (simp add: doc_active_def)

lemma from_dicts_active:
  "from_dicts ds w = (Inr ps, w') \<Longrightarrow>
   length ps = length ds \<and> (list_all doc_active ds \<longrightarrow> (\<forall>p\<in>set ps. deleted_at p = None))"
proof (induction ds arbitrary: w ps)
  case Nil
  then show ?case by simp
next
  case (Cons d ds)
  from Cons.prems obtain p w1 ps' where
    p: "Product_from_dict (d(''_id'' := None)) w = (Inr p, w1)"
    and ps': "from_dicts ds w1 = (Inr ps', w')" and e: "ps = p # ps'"
    by (auto split: sum.splits prod.splits)
  have "deleted_at p = None \<longleftrightarrow> doc_active d"
    using from_dict_ok [OF p] by simp
  then show ?case using Cons.IH [OF ps'] e by auto
qed

lemma from_dicts_stored:
  "list_all stored_doc ds \<Longrightarrow>
   \<exists>ps. from_dicts ds w = (Inr ps, w) \<and> list_all valid_product ps"
proof (induction ds)
  case Nil
  then show ?case by simp
next
  case (Cons d ds)
  from Cons.prems obtain p v where p: "valid_product p" "d = (Product_to_dict p)(''_id'' \<mapsto> v)"
    by (auto simp: stored_doc_def)
  have f: "Product_from_dict (d(''_id'' := None)) w = (Inr p, w)"
    using p by (simp add: from_dict_to_dict)
  from Cons obtain ps where "from_dicts ds w = (Inr ps, w)" "list_all valid_product ps"
    by auto
  then show ?case using f p(1) by simp
qed

lemma get_all_eq:
  "ProductService_get_all_products w = (Inr ps, w') \<longleftrightarrow>
   from_dicts (filter doc_active (documents w)) w = (Inr ps, w')"
  by (auto simp: ProductService_get_all_products_def ProductRepository_find_all_def
      find_docs_def split: sum.splits prod.splits cong: filter_cong)

lemma list_all_filter: "list_all P (filter P xs)"
  by (induction xs) simp_all

lemma list_all_filter2: "list_all Q xs \<Longrightarrow> list_all Q (filter P xs)"
  by (induction xs) simp_all

lemma get_all_active:
  assumes "ProductService_get_all_products w = (Inr ps, w')"
  shows "from_dicts (filter doc_active (documents w)) w = (Inr ps, w') \<and>
         length ps = active_count w \<and> (\<forall>p\<in>set ps. deleted_at p = None)"
proof -
  have f: "from_dicts (filter doc_active (documents w)) w = (Inr ps, w')"
    using assms by (simp add: get_all_eq)
  show ?thesis
    using f from_dicts_active [OF f] by (simp add: active_count_def list_all_filter)
qed

lemma get_all_well_stored:
  assumes "well_stored w"
  shows "\<exists>ps. ProductService_get_all_products w = (Inr ps, w) \<and> list_all valid_product ps"
  using assms from_dicts_stored [of "filter doc_active (documents w)" w]
  by (auto simp: get_all_eq well_stored_def list_all_filter2)

lemma route_get_all_response:
  assumes "get_all_products w = (Response st body, w')"
  shows "st = 200 \<and> total body = length (products body) \<and>
         length (products body) = active_count w \<and> (\<forall>r\<in>set (products body). r_deletedAt r = None)"
proof -
  obtain ps rs where g: "ProductService_get_all_products w = (Inr ps, w')"
    and r: "responses (validation_text w') ps = Inr rs"
    and b: "body = \<lparr>products = rs, total = length ps\<rparr>" and st: "st = 200"
    using assms
    by (auto simp: get_all_products_def route_def get_all_products_try_def unexpected_def
        split: sum.splits prod.splits elim!: get_all_products_except.elims)
  show ?thesis
    using get_all_active [OF g] responses_length [OF r] b st by simp
qed

lemma route_get_all_well_stored:
  assumes "well_stored w"
  shows "\<exists>body. get_all_products w = (Response 200 body, w)"
proof -
  from get_all_well_stored [OF assms] obtain ps where
    g: "ProductService_get_all_products w = (Inr ps, w)" and v: "list_all valid_product ps"
    by blast
  from responses_valid [OF v] obtain rs where "responses (validation_text w) ps = Inr rs"
    by blast
  then show ?thesis
    using g by (simp add: get_all_products_def route_def get_all_products_try_def)
qed

lemma map_add_to_dict:
  "(Product_to_dict p)(''_id'' \<mapsto> v) ++ Product_to_dict p' = (Product_to_dict p')(''_id'' \<mapsto> v)"
  by (rule ext) (simp add: map_add_def Product_to_dict_def)

lemma doc_active_stored [simp]:
  "doc_active ((Product_to_dict p)(''_id'' \<mapsto> v)) \<longleftrightarrow> deleted_at p = None"
  by (simp add: doc_active_def Product_to_dict_def split: option.splits)

lemma stored_from_dict:
  assumes "stored_doc d" "Product_from_dict (d(''_id'' := None)) w = (Inr p, w1)"
  obtains v where "valid_product p" "d = (Product_to_dict p)(''_id'' \<mapsto> v)"
proof -
  from assms(1) obtain p0 v where p0: "valid_product p0" "d = (Product_to_dict p0)(''_id'' \<mapsto> v)"
    by (auto simp: stored_doc_def)
  have "Product_from_dict (d(''_id'' := None)) w = (Inr p0, w)"
    using p0 by (simp add: from_dict_to_dict)
  then have "p0 = p" using assms(2) by simp
  then show ?thesis using p0 that by simp
qed

lemma active_count_append:
  "documents w' = documents w @ [d] \<Longrightarrow>
   active_count w' = active_count w + (if doc_active d then 1 else 0)"
  by (simp add: active_count_def)

lemma active_count_replace:
  "documents w = ds1 @ d # ds2 \<Longrightarrow> documents w' = ds1 @ d' # ds2 \<Longrightarrow>
   active_count w' + (if doc_active d then 1 else 0) =
   active_count w + (if doc_active d' then 1 else 0)"
  by (simp add: active_count_def)

lemma well_stored_same:
  "well_stored w \<Longrightarrow> documents w' = documents w \<Longrightarrow> clock w' = clock w \<Longrightarrow> well_stored w'"
  by (simp add: well_stored_def)

lemma step_counts:
  assumes ws: "well_stored w" and st: "service_step x w = (ok, w')"
  shows "well_stored w' \<and>
         active_count w' + (if ok \<and> is_delete x then 1 else 0) =
         active_count w + (if ok \<and> is_create x then 1 else 0)"
proof (cases x)
  case (CreateProduct c)
  obtain r w1 where s: "ProductService_create_product c w = (r, w1)"
    by (cases "ProductService_create_product c w")
  note cd = create_documents [OF s]
  show ?thesis
  proof (cases r)
    case (Inl e)
    have "w' = w1" "\<not> ok" using st s Inl CreateProduct by (simp_all add: succeeded_def)
    then show ?thesis
      using cd Inl ws CreateProduct by (simp add: well_stored_same active_count_def)
  next
    case (Inr p)
    have e: "w' = w1" "ok" using st s Inr CreateProduct by (simp_all add: succeeded_def)
    from cd Inr obtain v where d: "documents w1 = documents w @ [(Product_to_dict p)(''_id'' \<mapsto> v)]"
      and p: "deleted_at p = None" "created_at p = clock w (clock_reads w)"
        "updated_at p = clock w (Suc (clock_reads w))" and c: "clock w1 = clock w"
      by auto
    have v: "valid_product p" using p ws by (simp add: valid_product_def well_stored_def)
    have "stored_doc ((Product_to_dict p)(''_id'' \<mapsto> v))"
      using v by (auto simp: stored_doc_def)
    then have "well_stored w1" using ws d c by (simp add: well_stored_def)
    then show ?thesis
      using active_count_append [OF d] p(1) e CreateProduct by simp
  qed
next
  case (GetProduct i)
  obtain r w1 where s: "ProductService_get_product_by_id i w = (r, w1)"
    by (cases "ProductService_get_product_by_id i w")
  have "w' = w1" using st s GetProduct by (cases r) (simp_all add: succeeded_def)
  then show ?thesis
    using service_get_frame [OF s] ws GetProduct by (simp add: well_stored_same active_count_def)
next
  case GetAllProducts
  obtain r w1 where s: "ProductService_get_all_products w = (r, w1)"
    by (cases "ProductService_get_all_products w")
  have "w' = w1" using st s GetAllProducts by (cases r) (simp_all add: succeeded_def)
  then show ?thesis
    using service_get_all_frame [OF s] ws GetAllProducts
    by (simp add: well_stored_same active_count_def)
next
  case (UpdateProduct i u)
  obtain r w1 where s: "ProductService_update_product i u w = (r, w1)"
    by (cases "ProductService_update_product i u w")
  show ?thesis
  proof (cases r)
    case (Inl e)
    have "w' = w1" using st s Inl UpdateProduct by (simp add: succeeded_def)
    then show ?thesis
      using service_update_Inl [OF s [unfolded Inl]] ws UpdateProduct
      by (simp add: well_stored_same active_count_def)
  next
    case (Inr p')
    have e: "w' = w1" using st s Inr UpdateProduct by (simp add: succeeded_def)
    from s [unfolded Inr] obtain p w0 ds1 d ds2 where
      d: "documents w = ds1 @ d # ds2" "doc_active d"
        "Product_from_dict (d(''_id'' := None)) w = (Inr p, w0)"
        "documents w1 = ds1 @ (d ++ Product_to_dict p') # ds2"
        "deleted_at p' = None" "created_at p' = created_at p"
        "updated_at p' = clock w (clock_reads w0)" "clock w1 = clock w"
      by (rule service_update_docs)
    have sd: "stored_doc d" using ws d(1) by (simp add: well_stored_def)
    from sd d(3) obtain v where p: "valid_product p" "d = (Product_to_dict p)(''_id'' \<mapsto> v)"
      by (rule stored_from_dict)
    have v: "valid_product p'"
      using p(1) d(5,6,7) ws by (simp add: valid_product_def well_stored_def)
    have n: "d ++ Product_to_dict p' = (Product_to_dict p')(''_id'' \<mapsto> v)"
      unfolding p(2) by (rule map_add_to_dict)
    have "stored_doc (d ++ Product_to_dict p')" unfolding n using v by (auto simp: stored_doc_def)
    then have w: "well_stored w1" using ws d(1,4,8) by (simp add: well_stored_def)
    have "doc_active (d ++ Product_to_dict p')" unfolding n using d(5) by simp
    then show ?thesis
      using active_count_replace [OF d(1) d(4)] d(2) w e UpdateProduct by simp
  qed
next
  case (DeleteProduct i)
  obtain r w1 where s: "ProductService_delete_product i w = (r, w1)"
    by (cases "ProductService_delete_product i w")
  show ?thesis
  proof (cases r)
    case (Inl e)
    have "w' = w1" "\<not> ok" using st s Inl DeleteProduct by (simp_all add: succeeded_def)
    then show ?thesis
      using service_delete_Inl [OF s [unfolded Inl]] ws DeleteProduct
      by (simp add: well_stored_same active_count_def)
  next
    case (Inr p')
    have e: "w' = w1" "ok" using st s Inr DeleteProduct by (simp_all add: succeeded_def)
    from s [unfolded Inr] obtain p w0 ds1 d ds2 where
      d: "documents w = ds1 @ d # ds2" "doc_active d"
        "Product_from_dict (d(''_id'' := None)) w = (Inr p, w0)"
        "documents w1 = ds1 @ (d ++ Product_to_dict p') # ds2"
        "p' = p\<lparr>deleted_at := Some (clock w (clock_reads w0)),
              updated_at := clock w (Suc (clock_reads w0))\<rparr>" "clock w1 = clock w"
      by (rule service_delete_docs)
    have sd: "stored_doc d" using ws d(1) by (simp add: well_stored_def)
    from sd d(3) obtain v where p: "valid_product p" "d = (Product_to_dict p)(''_id'' \<mapsto> v)"
      by (rule stored_from_dict)
    have v: "valid_product p'"
      using p(1) d(5) ws by (simp add: valid_product_def well_stored_def)
    have n: "d ++ Product_to_dict p' = (Product_to_dict p')(''_id'' \<mapsto> v)"
      unfolding p(2) by (rule map_add_to_dict)
    have "stored_doc (d ++ Product_to_dict p')" unfolding n using v by (auto simp: stored_doc_def)
    then have w: "well_stored w1" using ws d(1,4,6) by (simp add: well_stored_def)
    have "\<not> doc_active (d ++ Product_to_dict p')" unfolding n using d(5) by simp
    then show ?thesis
      using active_count_replace [OF d(1) d(4)] d(2) w e DeleteProduct by simp
  qed
qed

lemma run_counts:
  "well_stored w \<Longrightarrow> run_service xs w = (n, k, w') \<Longrightarrow>
   well_stored w' \<and> active_count w' + k = active_count w + n"
proof (induction xs arbitrary: w n k)
  case Nil
  then show ?case by simp
next
  case (Cons x xs)
  obtain ok w1 where s: "service_step x w = (ok, w1)" by (cases "service_step x w")
  obtain n1 k1 w2 where r: "run_service xs w1 = (n1, k1, w2)"
    by (cases "run_service xs w1") auto
  have e: "w' = w2" "n = (if ok \<and> is_create x then Suc n1 else n1)"
    "k = (if ok \<and> is_delete x then Suc k1 else k1)"
    using Cons.prems(2) s r by simp_all
  note a = step_counts [OF Cons.prems(1) s]
  then have "well_stored w1" by simp
  note b = Cons.IH [OF this r [unfolded e(1) [symmetric]]]
  show ?case using a b e by (auto split: if_splits)
qed

text \<open>
  C3. Whenever the service's get-all succeeds, it returns the deserialisations of exactly the
  stored documents whose \<^verbatim>\<open>deletedAt\<close> is absent, as many as there are, none of them with
  \<open>deleted_at\<close> set. Every 200 response of \<^verbatim>\<open>GET /products\<close> carries a \<open>total\<close> equal to the
  length of its product list, which is the number of those documents, and no product in it
  has \<open>deletedAt\<close> set. And after any run of service calls on an empty collection with a
  clock that gives valid timestamps, in which \<open>n\<close> creations and \<open>k\<close> deletions succeeded,
  get-all and the route both succeed and return \<open>n - k\<close> products.
\<close>

theorem listing_excludes_deleted:
  "(ProductService_get_all_products w = (Inr ps, w') \<longrightarrow>
      from_dicts (filter doc_active (documents w)) w = (Inr ps, w') \<and>
      length ps = active_count w \<and> (\<forall>p\<in>set ps. deleted_at p = None)) \<and>
   (get_all_products w = (Response st body, w') \<longrightarrow>
      st = 200 \<and> total body = length (products body) \<and>
      length (products body) = active_count w \<and>
      (\<forall>r\<in>set (products body). r_deletedAt r = None)) \<and>
   (documents w0 = [] \<and> (\<forall>t. valid_datetime (clock w0 t)) \<and> run_service xs w0 = (n, k, w1) \<longrightarrow>
      k \<le> n \<and>
      (\<exists>qs. ProductService_get_all_products w1 = (Inr qs, w1) \<and> length qs = n - k \<and>
            (\<forall>p\<in>set qs. deleted_at p = None)) \<and>
      (\<exists>b. get_all_products w1 = (Response 200 b, w1) \<and> total b = n - k \<and>
           length (products b) = n - k \<and> (\<forall>r\<in>set (products b). r_deletedAt r = None)))"
proof -
  have 3: "k \<le> n \<and>
      (\<exists>qs. ProductService_get_all_products w1 = (Inr qs, w1) \<and> length qs = n - k \<and>
            (\<forall>p\<in>set qs. deleted_at p = None)) \<and>
      (\<exists>b. get_all_products w1 = (Response 200 b, w1) \<and> total b = n - k \<and>
           length (products b) = n - k \<and> (\<forall>r\<in>set (products b). r_deletedAt r = None))"
    if e: "documents w0 = []" and c: "\<forall>t. valid_datetime (clock w0 t)"
      and r: "run_service xs w0 = (n, k, w1)"
  proof -
    have ws: "well_stored w0" using e c by (simp add: well_stored_def)
    have a0: "active_count w0 = 0" using e by (simp add: active_count_def)
    from run_counts [OF ws r] a0 have w1: "well_stored w1" and cnt: "active_count w1 + k = n"
      by simp_all
    from get_all_well_stored [OF w1] obtain qs where
      q: "ProductService_get_all_products w1 = (Inr qs, w1)" by blast
    from route_get_all_well_stored [OF w1] obtain b where
      b: "get_all_products w1 = (Response 200 b, w1)" by blast
    have n: "active_count w1 = n - k" and le: "k \<le> n" using cnt by simp_all
    show ?thesis
      using get_all_active [OF q] route_get_all_response [OF b] q b n le by auto
  qed
  show ?thesis
    using get_all_active [of w ps w'] route_get_all_response [of w st body w'] 3
    by blast
qed

lemma example_uuid_0: "example_uuids 0 = 0x123e4567e89b12d3a456426614174000"
  and example_uuid_1: "example_uuids (Suc 0) = 0x123e4567e89b12d3a456426614174001"
  by (simp_all add: example_uuids_def)

lemma example_run_counts:
  "\<exists>w. run_service example_run example_world = (2, 1, w)"
proof -
  define p1 where "p1 = \<lparr>id' = 0x123e4567e89b12d3a456426614174000, name = ''Mouse'',
      description = None, category = ''Electronics'', price = 1, stock = 1,
      created_at = example_clock 0, updated_at = example_clock 1, deleted_at = None\<rparr>"
  define p2 where "p2 = \<lparr>id' = 0x123e4567e89b12d3a456426614174001, name = ''Mouse'',
      description = None, category = ''Electronics'', price = 1, stock = 1,
      created_at = example_clock 2, updated_at = example_clock 3, deleted_at = None\<rparr>"
  define w1 where "w1 = example_world\<lparr>documents := [(Product_to_dict p1)(''_id'' \<mapsto> VObjectId 0)],
      next_oid := 1, clock_reads := 2, uuid_draws := 1\<rparr>"
  define w2 where "w2 = example_world\<lparr>documents := [(Product_to_dict p1)(''_id'' \<mapsto> VObjectId 0),
        (Product_to_dict p2)(''_id'' \<mapsto> VObjectId 1)],
      next_oid := 2, clock_reads := 4, uuid_draws := 2\<rparr>"
  have s1: "service_step (CreateProduct example_create) example_world = (True, w1)"
    unfolding w1_def p1_def
    by (simp add: ProductService_create_product_def Product_init_def uuid4_def utcnow_def
        ProductRepository_create_def insert_one_def succeeded_def example_create_def
        example_world_def example_uuid_0 int_fits_def)
  have s2: "service_step (CreateProduct example_create) w1 = (True, w2)"
    unfolding w1_def w2_def p1_def p2_def
    by (simp add: ProductService_create_product_def Product_init_def uuid4_def utcnow_def
        ProductRepository_create_def insert_one_def succeeded_def example_create_def
        example_world_def example_uuid_1 eval_nat_numeral int_fits_def)
  have v: "valid_product p1"
    by (simp add: p1_def valid_product_def valid_example_clock)
  have i: "id' p1 = 0x123e4567e89b12d3a456426614174000" "id' p2 = 0x123e4567e89b12d3a456426614174001"
    and d: "deleted_at p1 = None" and st: "int_fits (stock p1)"
    by (simp_all add: p1_def p2_def int_fits_def)
  have f: "ProductRepository_find_by_id 0x123e4567e89b12d3a456426614174000 w2
      = (Inr (Some p1), w2)"
    by (simp add: ProductRepository_find_by_id_def find_one_def w2_def i from_dict_to_dict [OF v])
  have s3: "\<exists>w. service_step (DeleteProduct 0x123e4567e89b12d3a456426614174000) w2 = (True, w)"
    by (simp add: delete_product_active [OF f d] repository_update_eq succeeded_def st)
  then obtain w3 where
    s3': "service_step (DeleteProduct 0x123e4567e89b12d3a456426614174000) w2 = (True, w3)"
    by blast
  have "run_service example_run example_world = (2, 1, w3)"
    unfolding example_run_def by (simp add: s1 s2 s3' del: service_step.simps)
  then show ?thesis by blast
qed

lemma get_all_example_store:
  "get_all_products example_store =
     (Response 200
        \<lparr>products =
           [\<lparr>r_id = 0x123e4567e89b12d3a456426614174001, r_name = ''Keyboard'',
             r_description = Some ''Mechanical'', r_category = ''Electronics'', r_price = 80,
             r_stock = 12, r_createdAt = example_clock 1, r_updatedAt = example_clock 2,
             r_deletedAt = None\<rparr>],
         total = 1\<rparr>,
      example_store)"
proof -
  have d: "deleted_at example_active = None" "deleted_at example_product = Some (example_clock 9)"
    by (simp_all add: example_active_def example_product_def)
  have g: "ProductService_get_all_products example_store = (Inr [example_active], example_store)"
    using d
    by (simp add: ProductService_get_all_products_def ProductRepository_find_all_def
        find_docs_def example_store_def from_dict_to_dict valid_example_active Let_def)
  show ?thesis
    by (simp add: get_all_products_def route_def get_all_products_try_def g
        response_of_valid valid_example_active)
      (simp add: example_active_def)
qed

theorem listing_excludes_deleted_witness:
  "fst (run_service example_run example_world) = 2 \<and>
   fst (snd (run_service example_run example_world)) = 1 \<and>
   (\<exists>b. get_all_products (snd (snd (run_service example_run example_world)))
          = (Response 200 b, snd (snd (run_service example_run example_world))) \<and>
        total b = 1 \<and> length (products b) = 1 \<and> list_all (\<lambda>r. r_deletedAt r = None) (products b)) \<and>
   active_count example_store = 1 \<and>
   fst (get_all_products example_store) =
     Response 200
        \<lparr>products =
           [\<lparr>r_id = 0x123e4567e89b12d3a456426614174001, r_name = ''Keyboard'',
             r_description = Some ''Mechanical'', r_category = ''Electronics'', r_price = 80,
             r_stock = 12, r_createdAt = example_clock 1, r_updatedAt = example_clock 2,
             r_deletedAt = None\<rparr>],
         total = 1\<rparr>"
proof -
  obtain w where r: "run_service example_run example_world = (2, 1, w)"
    using example_run_counts by blast
  have h: "documents example_world = [] \<and> (\<forall>t. valid_datetime (clock example_world t)) \<and>
      run_service example_run example_world = (2, 1, w)"
    using r by (simp add: example_world_def valid_example_clock)
  from listing_excludes_deleted [THEN conjunct2, THEN conjunct2, THEN mp, OF h]
  obtain b where b: "get_all_products w = (Response 200 b, w)" "total b = 1"
    "length (products b) = 1" "\<forall>r\<in>set (products b). r_deletedAt r = None"
    by auto
  have 1: "\<exists>b. get_all_products w = (Response 200 b, w) \<and> total b = 1 \<and>
      length (products b) = 1 \<and> list_all (\<lambda>r. r_deletedAt r = None) (products b)"
    using b by (auto simp: list_all_iff)
  have 2: "active_count example_store = 1"
    using listing_excludes_deleted [THEN conjunct2, THEN conjunct1, THEN mp,
        OF get_all_example_store]
    by simp
  show ?thesis
    using 1 2 by (simp add: r get_all_example_store)
qed

end
